theory Spec2Isabelle
  imports Complex_Main "HOL-Library.Char_ord" "HOL-Library.List_Lexorder" "HOL-Library.Sublist"
begin

section \<open>ARIA radiology workbench: the backend of backend/main.py\<close>

text \<open>
  The service keeps two pieces of state: the module-level dictionary \<open>SESSIONS\<close>
  (token to username) and the SQLite file \<open>aria.db\<close> with five tables. A handler is a
  function from the state to a result and the state it leaves. An exception that reaches
  FastAPI is the \<open>Inl\<close> branch of the result; a handler that raises before
  \<open>db.commit()\<close> leaves the database as it found it (its connection is dropped with the
  transaction open).

  Text is a list of bytes (UTF-8), compared bytewise as SQLite's BINARY collation does.
\<close>

subsection \<open>Tables\<close>

text \<open>
  One record per table of \<open>init_db\<close>, the fields prefixed with the alias the queries of
  the source give the table (\<open>p\<close>, \<open>o\<close>, \<open>s\<close>, \<open>r\<close>; \<open>x\<close> for series). A table is
  the list of its rows in insertion order. \<open>critical_flag\<close> is an INTEGER column whose
  only writer stores \<open>1 if is_critical else 0\<close>: it is kept as the boolean.

  A TEXT column that a caller's values reach (the patient columns the import binds, the
  report columns the report commands bind) holds a text or NULL: \<open>None\<close> is NULL.
  The other TEXT columns are only ever written with text the service makes itself.
\<close>

record patient =
  p_patient_id :: string
  p_mrn :: "string option"
  p_first_name :: "string option"
  p_last_name :: "string option"
  p_dob :: "string option"
  p_sex :: "string option"
  p_phone :: string
  p_allergies :: string
  p_alerts :: string
  p_infection_flags :: string

record order =
  o_order_id :: string
  o_patient_id :: string
  o_ordering_clinician :: string
  o_ordering_location :: string
  o_indication :: string
  o_priority :: string
  o_status :: string
  o_created_at :: string

record study =
  s_study_id :: string
  s_patient_id :: string
  s_order_id :: string
  s_modality :: string
  s_description :: string
  s_body_part :: string
  s_scheduled_time :: string
  s_acquisition_time :: string
  s_accession :: string
  s_report_status :: string
  s_critical_flag :: bool
  s_pacs_status :: string

record series =
  x_series_id :: string
  x_study_id :: string
  x_series_number :: int
  x_series_description :: string

record report =
  r_report_id :: string
  r_study_id :: "string option"
  r_author :: string
  r_created_at :: string
  r_updated_at :: string
  r_indication :: "string option"
  r_technique :: "string option"
  r_findings :: "string option"
  r_impression :: "string option"
  r_sign_status :: "string option"
  r_addenda :: string

record database =
  patients :: "patient list"
  orders :: "order list"
  studies :: "study list"
  series_rows :: "series list"
  reports :: "report list"

record state =
  SESSIONS :: "string \<rightharpoonup> string"
  DB :: database

subsection \<open>Errors\<close>

text \<open>
  \<open>Unauthorised\<close>, \<open>Not_Found\<close> and \<open>Bad_Request\<close> are the HTTPException codes 401, 404
  and 400 the handlers raise; \<open>Server_Error\<close> is the 500 some AI handlers raise;
  \<open>Unhandled\<close> is an exception no handler catches.
\<close>

datatype exn =
    KeyError | ValueError | TypeError | AttributeError
  | IntegrityError | OverflowError | ProgrammingError | UnicodeEncodeError

datatype error = Unauthorised | Not_Found | Bad_Request | Server_Error string | Unhandled exn

subsection \<open>The world outside the repository\<close>

text \<open>
  What a request reads from outside: the \<open>random\<close> module, \<open>uuid.uuid4\<close>, the clock and
  its \<open>strftime\<close>, \<open>json.dumps\<close>, the text SQLite prints for a float, and the AI
  provider (model, arguments). The nondeterministic calls of
  one request are numbered in the order the handler makes them: call number \<open>k\<close> reads
  \<open>rand e k\<close> when it is a call of \<open>random\<close> and \<open>uuid4 e k\<close> when it is
  \<open>str(uuid.uuid4())\<close>. The clock is read as one instant per request, in minutes.
  A provider call that raises is \<open>Inl\<close> of the exception's text.
\<close>

record env =
  rand :: "nat \<Rightarrow> nat"
  uuid4 :: "nat \<Rightarrow> string"
  clock :: int
  strftime :: "int \<Rightarrow> string"
  strftime_date :: "int \<Rightarrow> string"
  json_dumps :: "string list \<Rightarrow> string"
  float_text :: "real \<Rightarrow> string"
  chat_completions :: "string \<Rightarrow> (string \<times> string) list \<Rightarrow> nat \<Rightarrow> string + string"
  audio_transcriptions :: "string \<Rightarrow> string \<Rightarrow> string \<Rightarrow> string \<Rightarrow> string + string"
  audio_speech :: "string \<Rightarrow> string \<Rightarrow> string \<Rightarrow> real \<Rightarrow> string + string"

subsection \<open>Session store\<close>

datatype message = Logged_out | Report_saved string | Report_updated

definition logout :: "string \<Rightarrow> state \<Rightarrow> (error + message) \<times> state" where
  "logout token st = (Inr Logged_out, st\<lparr>SESSIONS := (SESSIONS st)(token := None)\<rparr>)"

definition verify_token :: "state \<Rightarrow> string \<Rightarrow> error + string" where
  "verify_token st token =
     (case SESSIONS st token of None \<Rightarrow> Inl Unauthorised | Some username \<Rightarrow> Inr username)"

subsection \<open>Request bodies and bound parameters\<close>

text \<open>
  A request body (\<open>data: dict\<close>) is a JSON object: the map from its keys to JSON values.
  A number with a fraction or an exponent is a float. \<open>JStr\<close> is a string by its UTF-8
  bytes; \<open>JStr_surrogate\<close> is a string that holds a lone surrogate and has no UTF-8
  encoding. An object is the list of its members, one for each key.
  \<open>dict_get\<close> is \<open>data.get(key, default)\<close>.
\<close>

datatype json =
    JNull
  | JBool bool
  | JInt int
  | JFloat real
  | JStr string
  | JStr_surrogate
  | JList "json list"
  | JDict "(string \<times> json) list"

definition dict_get :: "(string \<rightharpoonup> 'a) \<Rightarrow> string \<Rightarrow> 'a \<Rightarrow> 'a" where
  "dict_get data k d = (case data k of None \<Rightarrow> d | Some v \<Rightarrow> v)"

text \<open>
  What \<open>db.execute\<close> makes of a Python value bound to a \<open>?\<close> of a TEXT column:
  \<open>None\<close> is NULL, a string is itself, an integer that fits 64 bits is stored as its
  numeral (a boolean is the integer 1 or 0), a float as the text SQLite prints for it;
  a larger integer raises OverflowError, a string without encoding UnicodeEncodeError,
  a list or a dictionary ProgrammingError. Nothing is executed when a parameter fails.
\<close>

definition int64 :: "int \<Rightarrow> bool" where
  "int64 i = (- (2 ^ 63) \<le> i \<and> i < 2 ^ 63)"

fun digits :: "nat \<Rightarrow> string" where
  "digits n =
     (if n < 10 then [''0123456789'' ! n]
      else digits (n div 10) @ [''0123456789'' ! (n mod 10)])"

declare digits.simps [simp del]

text \<open>\<open>str(n)\<close> of an integer, as f-strings, the CSV writer and SQLite print it.\<close>

definition str_int :: "int \<Rightarrow> string" where
  "str_int i = (if i < 0 then CHR ''-'' # digits (nat (- i)) else digits (nat i))"

definition bind_text :: "env \<Rightarrow> json \<Rightarrow> exn + string option" where
  "bind_text e v =
     (case v of
        JNull \<Rightarrow> Inr None
      | JBool b \<Rightarrow> Inr (Some (if b then ''1'' else ''0''))
      | JInt i \<Rightarrow> if int64 i then Inr (Some (str_int i)) else Inl OverflowError
      | JFloat x \<Rightarrow> Inr (Some (float_text e x))
      | JStr s \<Rightarrow> Inr (Some s)
      | JStr_surrogate \<Rightarrow> Inl UnicodeEncodeError
      | JList xs \<Rightarrow> Inl ProgrammingError
      | JDict kv \<Rightarrow> Inl ProgrammingError)"

text \<open>A step that may raise, and what follows it when it does not.\<close>

definition on_success :: "exn + 'a \<Rightarrow> ('a \<Rightarrow> exn + 'b) \<Rightarrow> exn + 'b" where
  "on_success r f = (case r of Inl x \<Rightarrow> Inl x | Inr v \<Rightarrow> f v)"

subsection \<open>Report commands\<close>

text \<open>
  The five narrative parameters of both report statements, bound in the order of the
  tuple: \<open>data.get("indication","")\<close>, ..., \<open>data.get("sign_status","Draft")\<close>.
\<close>

record report_fields =
  f_indication :: "string option"
  f_technique :: "string option"
  f_findings :: "string option"
  f_impression :: "string option"
  f_sign_status :: "string option"

definition bind_report_fields :: "env \<Rightarrow> (string \<rightharpoonup> json) \<Rightarrow> exn + report_fields" where
  "bind_report_fields e data =
     on_success (bind_text e (dict_get data ''indication'' (JStr ''''))) (\<lambda>indication.
     on_success (bind_text e (dict_get data ''technique'' (JStr ''''))) (\<lambda>technique.
     on_success (bind_text e (dict_get data ''findings'' (JStr ''''))) (\<lambda>findings.
     on_success (bind_text e (dict_get data ''impression'' (JStr ''''))) (\<lambda>impression.
     on_success (bind_text e (dict_get data ''sign_status'' (JStr ''Draft''))) (\<lambda>sign_status.
     Inr \<lparr>f_indication = indication, f_technique = technique, f_findings = findings,
          f_impression = impression, f_sign_status = sign_status\<rparr>)))))"

text \<open>\<open>INSERT INTO reports\<close>: \<open>report_id\<close> is the primary key.\<close>

definition insert_report :: "database \<Rightarrow> report \<Rightarrow> exn + database" where
  "insert_report db r =
     (if r_report_id r \<in> set (map r_report_id (reports db)) then Inl IntegrityError
      else Inr (db\<lparr>reports := reports db @ [r]\<rparr>))"

text \<open>
  \<open>data["study_id"]\<close> raises KeyError while the tuple is built; then the parameters are
  bound, the study id before the narrative fields.
\<close>

definition create_report ::
  "env \<Rightarrow> (string \<rightharpoonup> json) \<Rightarrow> string \<Rightarrow> state \<Rightarrow> (error + message) \<times> state" where
  "create_report e data token st =
     (case verify_token st token of
        Inl err \<Rightarrow> (Inl err, st)
      | Inr username \<Rightarrow>
          (let rid = uuid4 e 0; now = strftime e (clock e) in
           case data ''study_id'' of
             None \<Rightarrow> (Inl (Unhandled KeyError), st)
           | Some study_id \<Rightarrow>
               (case on_success (bind_text e study_id) (\<lambda>sid.
                     on_success (bind_report_fields e data) (\<lambda>fs.
                     insert_report (DB st)
                       \<lparr>r_report_id = rid, r_study_id = sid, r_author = username,
                        r_created_at = now, r_updated_at = now,
                        r_indication = f_indication fs, r_technique = f_technique fs,
                        r_findings = f_findings fs, r_impression = f_impression fs,
                        r_sign_status = f_sign_status fs,
                        r_addenda = json_dumps e []\<rparr>)) of
                  Inl x \<Rightarrow> (Inl (Unhandled x), st)
                | Inr db' \<Rightarrow> (Inr (Report_saved rid), st\<lparr>DB := db'\<rparr>))))"

text \<open>\<open>UPDATE reports SET ... WHERE report_id=?\<close>: every row with that id is rewritten.\<close>

definition update_row :: "string \<Rightarrow> report_fields \<Rightarrow> string \<Rightarrow> report \<Rightarrow> report" where
  "update_row now fs report_id r =
     (if r_report_id r = report_id
      then r\<lparr>r_indication := f_indication fs, r_technique := f_technique fs,
             r_findings := f_findings fs, r_impression := f_impression fs,
             r_sign_status := f_sign_status fs, r_updated_at := now\<rparr>
      else r)"

definition update_report ::
  "env \<Rightarrow> string \<Rightarrow> (string \<rightharpoonup> json) \<Rightarrow> string \<Rightarrow> state \<Rightarrow> (error + message) \<times> state" where
  "update_report e report_id data token st =
     (case verify_token st token of
        Inl err \<Rightarrow> (Inl err, st)
      | Inr username \<Rightarrow>
          (let now = strftime e (clock e) in
           case bind_report_fields e data of
             Inl x \<Rightarrow> (Inl (Unhandled x), st)
           | Inr fs \<Rightarrow>
               (Inr Report_updated,
                st\<lparr>DB := (DB st)\<lparr>reports :=
                       map (update_row now fs report_id) (reports (DB st))\<rparr>\<rparr>)))"

subsection \<open>Query helpers\<close>

text \<open>
  A fetched row turned into a dictionary (\<open>dict(r)\<close>) is the list of its columns with
  their values, in the order of the SELECT.
\<close>

datatype sql_value = Null | Integer int | Text string

type_synonym row = "(string \<times> sql_value) list"

definition text_value :: "string option \<Rightarrow> sql_value" where
  "text_value x = (case x of None \<Rightarrow> Null | Some t \<Rightarrow> Text t)"

text \<open>
  \<open>ORDER BY\<close>: the rows are put in an order in which \<open>le a b\<close> holds for every
  row \<open>a\<close> standing before a row \<open>b\<close>; SQLite leaves the order of rows with equal keys
  open, here they keep the order they had.
\<close>

fun insort_by :: "('a \<Rightarrow> 'a \<Rightarrow> bool) \<Rightarrow> 'a \<Rightarrow> 'a list \<Rightarrow> 'a list" where
  "insort_by le a [] = [a]"
| "insort_by le a (b # bs) = (if le a b then a # b # bs else b # insort_by le a bs)"

fun order_by :: "('a \<Rightarrow> 'a \<Rightarrow> bool) \<Rightarrow> 'a list \<Rightarrow> 'a list" where
  "order_by le [] = []"
| "order_by le (a # as) = insort_by le a (order_by le as)"

text \<open>
  \<open>LIMIT limit OFFSET offset\<close>, the two integers written into the query text: a
  negative offset is no offset, a negative limit is no limit. A literal outside the
  64-bit range is not an integer to SQLite and the query fails (datatype mismatch, which
  sqlite3 raises as IntegrityError).
\<close>

definition limit_offset :: "int \<Rightarrow> int \<Rightarrow> 'a list \<Rightarrow> exn + 'a list" where
  "limit_offset l off xs =
     (if int64 l \<and> int64 off
      then (let ys = drop (nat off) xs in Inr (if l < 0 then ys else take (nat l) ys))
      else Inl IntegrityError)"

text \<open>
  SQLite's \<open>LIKE\<close>: \<open>%\<close> stands for any run of characters, \<open>_\<close> for one
  character, and the letters A to Z match their lower case. A character is a byte and
  the continuation bytes (\<open>0x80\<close> to \<open>0xBF\<close>) that follow it. \<open>x LIKE pattern\<close> is not
  true when \<open>x\<close> is NULL, and \<open>a || b\<close> is NULL when one of the two is.
\<close>

definition lower :: "char \<Rightarrow> char" where
  "lower c =
     (case map_of (zip ''ABCDEFGHIJKLMNOPQRSTUVWXYZ'' ''abcdefghijklmnopqrstuvwxyz'') c of
        None \<Rightarrow> c
      | Some l \<Rightarrow> l)"

definition continuation :: "char \<Rightarrow> bool" where
  "continuation c = (CHR 0x80 \<le> c \<and> c \<le> CHR 0xBF)"

function like :: "string \<Rightarrow> string \<Rightarrow> bool" where
  "like [] s = (s = [])"
| "like (c # p) [] = (c = CHR ''%'' \<and> like p [])"
| "like (c # p) (d # s) =
     (if c = CHR ''%'' then like p (d # s) \<or> like (c # p) (dropWhile continuation s)
      else if c = CHR ''_'' then like p (dropWhile continuation s)
      else lower c = lower d \<and> like p s)"
  by pat_completeness auto
termination
  by (relation "measure (\<lambda>(p, s). length p + length s)")
     (auto simp: less_Suc_eq_le length_dropWhile_le le_SucI)

definition like_null :: "string \<Rightarrow> string option \<Rightarrow> bool" where
  "like_null pattern x = (case x of None \<Rightarrow> False | Some s \<Rightarrow> like pattern s)"

definition concat_null :: "string option \<Rightarrow> string option \<Rightarrow> string option" where
  "concat_null a b =
     (case a of None \<Rightarrow> None | Some x \<Rightarrow> (case b of None \<Rightarrow> None | Some y \<Rightarrow> Some (x @ y)))"

text \<open>
  \<open>FROM studies s JOIN patients p ON s.patient_id = p.patient_id
  JOIN orders o ON s.order_id = o.order_id\<close>
\<close>

definition study_join :: "database \<Rightarrow> (study \<times> patient \<times> order) list" where
  "study_join db =
     [(s, p, od). s \<leftarrow> studies db,
                 p \<leftarrow> patients db, s_patient_id s = p_patient_id p,
                 od \<leftarrow> orders db, s_order_id s = o_order_id od]"

definition flag_value :: "bool \<Rightarrow> sql_value" where
  "flag_value b = Integer (if b then 1 else 0)"

subsection \<open>Worklist\<close>

definition worklist_where ::
  "string \<Rightarrow> string \<Rightarrow> string \<Rightarrow> string \<Rightarrow> study \<times> patient \<times> order \<Rightarrow> bool" where
  "worklist_where modality status priority search = (\<lambda>(s, p, od).
     (if modality \<noteq> [] then s_modality s = modality else True) \<and>
     (if status \<noteq> [] then s_report_status s = status else True) \<and>
     (if priority \<noteq> [] then o_priority od = priority else True) \<and>
     (if search \<noteq> []
      then like_null (''%'' @ search @ ''%'')
             (concat_null (concat_null (p_first_name p) (Some '' '')) (p_last_name p))
         \<or> like_null (''%'' @ search @ ''%'') (p_mrn p)
         \<or> like (''%'' @ search @ ''%'') (s_description s)
      else True))"

text \<open>\<open>CASE o.priority WHEN 'Emergency' THEN 0 WHEN 'Urgent' THEN 1 ELSE 2 END\<close>\<close>

definition priority_case :: "string \<Rightarrow> nat" where
  "priority_case p = (if p = ''Emergency'' then 0 else if p = ''Urgent'' then 1 else 2)"

text \<open>
  \<open>ORDER BY s.critical_flag DESC, CASE o.priority ... END, s.scheduled_time DESC\<close>:
  whether a row may stand before another.
\<close>

definition worklist_order :: "study \<times> patient \<times> order \<Rightarrow> study \<times> patient \<times> order \<Rightarrow> bool" where
  "worklist_order = (\<lambda>(s, p, od) (s', p', od').
     if s_critical_flag s \<noteq> s_critical_flag s' then s_critical_flag s
     else if priority_case (o_priority od) \<noteq> priority_case (o_priority od')
     then priority_case (o_priority od) < priority_case (o_priority od')
     else s_scheduled_time s' \<le> s_scheduled_time s)"

definition worklist_row :: "study \<times> patient \<times> order \<Rightarrow> row" where
  "worklist_row = (\<lambda>(s, p, od).
     [(''study_id'', Text (s_study_id s)), (''modality'', Text (s_modality s)),
      (''description'', Text (s_description s)), (''body_part'', Text (s_body_part s)),
      (''scheduled_time'', Text (s_scheduled_time s)),
      (''acquisition_time'', Text (s_acquisition_time s)),
      (''accession'', Text (s_accession s)), (''report_status'', Text (s_report_status s)),
      (''critical_flag'', flag_value (s_critical_flag s)),
      (''pacs_status'', Text (s_pacs_status s)),
      (''first_name'', text_value (p_first_name p)), (''last_name'', text_value (p_last_name p)),
      (''mrn'', text_value (p_mrn p)), (''dob'', text_value (p_dob p)), (''sex'', text_value (p_sex p)),
      (''allergies'', Text (p_allergies p)), (''alerts'', Text (p_alerts p)),
      (''priority'', Text (o_priority od)),
      (''ordering_clinician'', Text (o_ordering_clinician od)),
      (''ordering_location'', Text (o_ordering_location od)),
      (''indication'', Text (o_indication od))])"

record worklist_response =
  wl_studies :: "row list"
  wl_total :: nat

definition worklist ::
  "string \<Rightarrow> string \<Rightarrow> string \<Rightarrow> string \<Rightarrow> string \<Rightarrow> int \<Rightarrow> int \<Rightarrow> state \<Rightarrow>
   (error + worklist_response) \<times> state" where
  "worklist token modality status priority search limit offset st =
     (case verify_token st token of
        Inl err \<Rightarrow> (Inl err, st)
      | Inr username \<Rightarrow>
          (case limit_offset limit offset
                  (order_by worklist_order
                     (filter (worklist_where modality status priority search)
                        (study_join (DB st)))) of
             Inl x \<Rightarrow> (Inl (Unhandled x), st)
           | Inr rows \<Rightarrow>
               (Inr \<lparr>wl_studies = map worklist_row rows, wl_total = length rows\<rparr>, st)))"

subsection \<open>Reading patients, studies and reports\<close>

text \<open>\<open>dict(p)\<close> of a row of \<open>SELECT * FROM patients\<close>\<close>

definition patient_row :: "patient \<Rightarrow> row" where
  "patient_row p =
     [(''patient_id'', Text (p_patient_id p)), (''mrn'', text_value (p_mrn p)),
      (''first_name'', text_value (p_first_name p)), (''last_name'', text_value (p_last_name p)),
      (''dob'', text_value (p_dob p)), (''sex'', text_value (p_sex p)), (''phone'', Text (p_phone p)),
      (''allergies'', Text (p_allergies p)), (''alerts'', Text (p_alerts p)),
      (''infection_flags'', Text (p_infection_flags p))]"

definition get_patient :: "string \<Rightarrow> string \<Rightarrow> state \<Rightarrow> (error + row) \<times> state" where
  "get_patient patient_id token st =
     (case verify_token st token of
        Inl err \<Rightarrow> (Inl err, st)
      | Inr username \<Rightarrow>
          (case find (\<lambda>p. p_patient_id p = patient_id) (patients (DB st)) of
             None \<Rightarrow> (Inl Not_Found, st)
           | Some p \<Rightarrow> (Inr (patient_row p), st)))"

text \<open>
  \<open>SELECT s.*, p.first_name, p.last_name, p.mrn, p.dob, p.sex, p.allergies, p.alerts,
  o.priority, o.ordering_clinician, o.indication\<close>
\<close>

definition study_row :: "study \<times> patient \<times> order \<Rightarrow> row" where
  "study_row = (\<lambda>(s, p, od).
     [(''study_id'', Text (s_study_id s)), (''patient_id'', Text (s_patient_id s)),
      (''order_id'', Text (s_order_id s)), (''modality'', Text (s_modality s)),
      (''description'', Text (s_description s)), (''body_part'', Text (s_body_part s)),
      (''scheduled_time'', Text (s_scheduled_time s)),
      (''acquisition_time'', Text (s_acquisition_time s)),
      (''accession'', Text (s_accession s)), (''report_status'', Text (s_report_status s)),
      (''critical_flag'', flag_value (s_critical_flag s)),
      (''pacs_status'', Text (s_pacs_status s)),
      (''first_name'', text_value (p_first_name p)), (''last_name'', text_value (p_last_name p)),
      (''mrn'', text_value (p_mrn p)), (''dob'', text_value (p_dob p)), (''sex'', text_value (p_sex p)),
      (''allergies'', Text (p_allergies p)), (''alerts'', Text (p_alerts p)),
      (''priority'', Text (o_priority od)),
      (''ordering_clinician'', Text (o_ordering_clinician od)),
      (''indication'', Text (o_indication od))])"

definition series_row :: "series \<Rightarrow> row" where
  "series_row x =
     [(''series_id'', Text (x_series_id x)), (''study_id'', Text (x_study_id x)),
      (''series_number'', Integer (x_series_number x)),
      (''series_description'', Text (x_series_description x))]"

definition report_row :: "report \<Rightarrow> row" where
  "report_row r =
     [(''report_id'', Text (r_report_id r)), (''study_id'', text_value (r_study_id r)),
      (''author'', Text (r_author r)), (''created_at'', Text (r_created_at r)),
      (''updated_at'', Text (r_updated_at r)), (''indication'', text_value (r_indication r)),
      (''technique'', text_value (r_technique r)), (''findings'', text_value (r_findings r)),
      (''impression'', text_value (r_impression r)), (''sign_status'', text_value (r_sign_status r)),
      (''addenda'', Text (r_addenda r))]"

record study_response =
  sr_study :: row
  sr_series :: "row list"
  sr_report :: "row option"

definition get_study :: "string \<Rightarrow> string \<Rightarrow> state \<Rightarrow> (error + study_response) \<times> state" where
  "get_study study_id token st =
     (case verify_token st token of
        Inl err \<Rightarrow> (Inl err, st)
      | Inr username \<Rightarrow>
          (let s = find (\<lambda>(s, p, od). s_study_id s = study_id) (study_join (DB st));
               series = order_by (\<lambda>a b. x_series_number a \<le> x_series_number b)
                          (filter (\<lambda>x. x_study_id x = study_id) (series_rows (DB st)));
               report = (case order_by (\<lambda>a b. r_created_at b \<le> r_created_at a)
                                 (filter (\<lambda>r. r_study_id r = Some study_id) (reports (DB st))) of
                           [] \<Rightarrow> None
                         | r # rs \<Rightarrow> Some r)
           in case s of
                None \<Rightarrow> (Inl Not_Found, st)
              | Some j \<Rightarrow>
                  (Inr \<lparr>sr_study = study_row j, sr_series = map series_row series,
                        sr_report = map_option report_row report\<rparr>, st)))"

text \<open>
  \<open>FROM reports r JOIN studies s ON r.study_id = s.study_id
  JOIN patients p ON s.patient_id = p.patient_id\<close>, and the row
  \<open>r.*, p.first_name, p.last_name, p.mrn, s.modality, s.body_part, s.accession\<close>
\<close>

definition report_join :: "database \<Rightarrow> (report \<times> study \<times> patient) list" where
  "report_join db =
     [(r, s, p). r \<leftarrow> reports db,
                 s \<leftarrow> studies db, r_study_id r = Some (s_study_id s),
                 p \<leftarrow> patients db, s_patient_id s = p_patient_id p]"

definition reports_row :: "report \<times> study \<times> patient \<Rightarrow> row" where
  "reports_row = (\<lambda>(r, s, p).
     report_row r @
     [(''first_name'', text_value (p_first_name p)), (''last_name'', text_value (p_last_name p)),
      (''mrn'', text_value (p_mrn p)), (''modality'', Text (s_modality s)),
      (''body_part'', Text (s_body_part s)), (''accession'', Text (s_accession s))])"

definition get_reports :: "string \<Rightarrow> state \<Rightarrow> (error + row list) \<times> state" where
  "get_reports token st =
     (case verify_token st token of
        Inl err \<Rightarrow> (Inl err, st)
      | Inr username \<Rightarrow>
          (Inr (map reports_row
                  (order_by (\<lambda>(r, s, p) (r', s', p'). r_updated_at r' \<le> r_updated_at r)
                     (report_join (DB st)))), st))"

subsection \<open>Statistics\<close>

record stats_response =
  stats_total :: nat
  stats_critical :: nat
  stats_unreported :: nat
  stats_patients :: nat
  stats_modalities :: "string \<rightharpoonup> nat"

definition get_stats :: "string \<Rightarrow> state \<Rightarrow> (error + stats_response) \<times> state" where
  "get_stats token st =
     (case verify_token st token of
        Inl err \<Rightarrow> (Inl err, st)
      | Inr username \<Rightarrow>
          (Inr \<lparr>stats_total = length (studies (DB st)),
                stats_critical = length (filter s_critical_flag (studies (DB st))),
                stats_unreported =
                  length (filter (\<lambda>s. s_report_status s = ''Unreported'') (studies (DB st))),
                stats_patients = length (patients (DB st)),
                stats_modalities = (\<lambda>m.
                  if m \<in> set (map s_modality (studies (DB st)))
                  then Some (length (filter (\<lambda>s. s_modality s = m) (studies (DB st))))
                  else None)\<rparr>, st))"

subsection \<open>Export\<close>

text \<open>
  \<open>SELECT p.mrn, p.first_name, p.last_name, p.dob, p.sex, s.modality, s.description,
  s.body_part, s.scheduled_time, s.report_status, s.critical_flag, o.priority,
  o.ordering_clinician\<close>
\<close>

definition export_row :: "study \<times> patient \<times> order \<Rightarrow> row" where
  "export_row = (\<lambda>(s, p, od).
     [(''mrn'', text_value (p_mrn p)), (''first_name'', text_value (p_first_name p)),
      (''last_name'', text_value (p_last_name p)), (''dob'', text_value (p_dob p)),
      (''sex'', text_value (p_sex p)), (''modality'', Text (s_modality s)),
      (''description'', Text (s_description s)), (''body_part'', Text (s_body_part s)),
      (''scheduled_time'', Text (s_scheduled_time s)),
      (''report_status'', Text (s_report_status s)),
      (''critical_flag'', flag_value (s_critical_flag s)),
      (''priority'', Text (o_priority od)),
      (''ordering_clinician'', Text (o_ordering_clinician od))])"

text \<open>
  The JSON response is the list of row dictionaries. The CSV attachment is kept as its
  table of cells, the header first, \<open>None\<close> written as the empty cell; with no row to
  take the field names from, nothing is written.
\<close>

datatype export_response = JSONResponse "row list" | CSV_attachment "string list list"

definition str_value :: "sql_value \<Rightarrow> string" where
  "str_value v = (case v of Null \<Rightarrow> [] | Integer i \<Rightarrow> str_int i | Text t \<Rightarrow> t)"

definition export_rows :: "database \<Rightarrow> row list" where
  "export_rows db =
     map export_row
       (order_by (\<lambda>(s, p, od) (s', p', od'). s_scheduled_time s' \<le> s_scheduled_time s)
          (study_join db))"

definition export_data :: "string \<Rightarrow> string \<Rightarrow> state \<Rightarrow> (error + export_response) \<times> state" where
  "export_data token fmt st =
     (case verify_token st token of
        Inl err \<Rightarrow> (Inl err, st)
      | Inr username \<Rightarrow>
          (let data = export_rows (DB st) in
           if fmt = ''csv''
           then (Inr (CSV_attachment
                        (case data of
                           [] \<Rightarrow> []
                         | d # ds \<Rightarrow> map fst d # map (map (str_value \<circ> snd)) data)), st)
           else (Inr (JSONResponse data), st)))"

subsection \<open>Import\<close>

text \<open>
  \<open>random.randint(a, b)\<close> on the draw \<open>r\<close>. It raises ValueError when \<open>b < a\<close>; the one
  call whose bounds are not constants is guarded where it stands.
\<close>

definition randint :: "int \<Rightarrow> int \<Rightarrow> nat \<Rightarrow> int" where
  "randint a b r = a + int r mod (b - a + 1)"

text \<open>
  \<open>INSERT INTO patients\<close>: \<open>patient_id\<close> is the primary key and \<open>mrn\<close> is UNIQUE,
  which a NULL never violates.
\<close>

definition insert_patient :: "database \<Rightarrow> patient \<Rightarrow> exn + database" where
  "insert_patient db p =
     (if p_patient_id p \<in> set (map p_patient_id (patients db))
         \<or> (p_mrn p \<noteq> None \<and> p_mrn p \<in> set (map p_mrn (patients db)))
      then Inl IntegrityError
      else Inr (db\<lparr>patients := patients db @ [p]\<rparr>))"

text \<open>
  The uploaded file is kept as what its parser makes of it, \<open>json.loads\<close> for a name
  ending in \<open>.json\<close> and \<open>list(csv.DictReader(...))\<close> otherwise (a list of dictionaries
  whose values are strings, or \<open>None\<close> where a line is short): the JSON value, or
  \<open>None\<close> when the parser raises.
\<close>

record upload =
  filename :: string
  parsed :: "json option"

text \<open>
  \<open>for row in rows\<close>: a list gives its items, a dictionary its keys, a string its
  characters (pieces of text, none of them a dictionary); anything else is not iterable.
\<close>

definition iterate :: "json \<Rightarrow> exn + json list" where
  "iterate v =
     (case v of
        JList items \<Rightarrow> Inr items
      | JDict kv \<Rightarrow> Inr (map (JStr \<circ> fst) kv)
      | JStr s \<Rightarrow> Inr (map (\<lambda>c. JStr [c]) s)
      | JStr_surrogate \<Rightarrow> Inr [JStr_surrogate]
      | _ \<Rightarrow> Inl TypeError)"

text \<open>
  The parameters of one row's INSERT, bound in the order of the tuple; the id is call
  \<open>k\<close> and the draw for the default MRN call \<open>k + 1\<close>, made whether or not the row has
  an MRN.
\<close>

definition import_patient :: "env \<Rightarrow> nat \<Rightarrow> (string \<rightharpoonup> json) \<Rightarrow> exn + patient" where
  "import_patient e k row =
     (let pid = uuid4 e k;
          mrn = dict_get row ''mrn''
                  (JStr (''KCH'' @ str_int (randint 1000000 9999999 (rand e (k + 1)))))
      in on_success (bind_text e mrn) (\<lambda>mrn.
         on_success (bind_text e (dict_get row ''first_name'' (JStr ''Unknown''))) (\<lambda>first_name.
         on_success (bind_text e (dict_get row ''last_name'' (JStr ''Unknown''))) (\<lambda>last_name.
         on_success (bind_text e (dict_get row ''dob'' (JStr ''1970-01-01''))) (\<lambda>dob.
         on_success (bind_text e (dict_get row ''sex'' (JStr ''U''))) (\<lambda>sex.
         Inr \<lparr>p_patient_id = pid, p_mrn = mrn, p_first_name = first_name,
              p_last_name = last_name, p_dob = dob, p_sex = sex, p_phone = '''',
              p_allergies = ''[]'', p_alerts = ''[]'', p_infection_flags = ''[]''\<rparr>))))))"

text \<open>
  The loop over the rows. \<open>row.get\<close> on a row that is not a dictionary raises
  AttributeError out of the loop. Whatever the INSERT raises, a parameter that cannot be
  bound or a constraint, is swallowed (\<open>except: pass\<close>) and the row is skipped.
\<close>

fun import_rows :: "env \<Rightarrow> nat \<Rightarrow> json list \<Rightarrow> database \<Rightarrow> nat \<Rightarrow> exn + database \<times> nat" where
  "import_rows e k [] db imported = Inr (db, imported)"
| "import_rows e k (row # rest) db imported =
     (case row of
        JDict kv \<Rightarrow>
          (case on_success (import_patient e k (map_of kv)) (insert_patient db) of
             Inl x \<Rightarrow> import_rows e (k + 2) rest db imported
           | Inr db' \<Rightarrow> import_rows e (k + 2) rest db' (imported + 1))
      | _ \<Rightarrow> Inl AttributeError)"

text \<open>
  Any exception of the parser or the loop becomes the 400 and nothing is committed.
\<close>

definition import_data :: "env \<Rightarrow> string \<Rightarrow> upload \<Rightarrow> state \<Rightarrow> (error + nat) \<times> state" where
  "import_data e token file st =
     (case verify_token st token of
        Inl err \<Rightarrow> (Inl err, st)
      | Inr username \<Rightarrow>
          (case parsed file of
             None \<Rightarrow> (Inl Bad_Request, st)
           | Some content \<Rightarrow>
               (case on_success (iterate content) (\<lambda>rows. import_rows e 0 rows (DB st) 0) of
                  Inl x \<Rightarrow> (Inl Bad_Request, st)
                | Inr (db', imported) \<Rightarrow> (Inr imported, st\<lparr>DB := db'\<rparr>))))"

subsection \<open>AI proxy\<close>

text \<open>The characters outside ASCII that the texts of the source use, in UTF-8.\<close>

definition em_dash :: string where
  "em_dash = [CHR 0xE2, CHR 0x80, CHR 0x94]"

definition warning_sign :: string where
  "warning_sign = [CHR 0xE2, CHR 0x9A, CHR 0xA0]"

definition aria_system_prompt :: string where
  "aria_system_prompt =
     ''You are ARIA '' @ em_dash
     @ '' Advanced Radiology Intelligence Assistant at King's College Hospital ''
     @ ''NHS Foundation Trust.\<newline>You are a sophisticated, calm, ''
     @ ''professional female AI assistant embedded in the hospital's radiology ''
     @ ''workbench.\<newline>You assist radiologists and clinicians with ''
     @ ''workflow queries, study prioritisation, and report ''
     @ ''assistance.\<newline>You never make definitive clinical diagnoses. ''
     @ ''You always recommend clinical correlation.\<newline>Respond concisely ''
     @ ''and professionally. Maximum 3 sentences unless detail is ''
     @ ''requested.\<newline>Always add: 'This is AI-assisted information '' @ em_dash
     @ '' clinical judgment must prevail.'' @ [CHR 0x27]"

definition assist_report_prompt :: "(string \<rightharpoonup> string) \<Rightarrow> string" where
  "assist_report_prompt data =
     ''You are ARIA, an AI radiology assistant at King's College ''
     @ ''Hospital.\<newline>Based on these findings, suggest a professional ''
     @ ''radiology report impression and differential diagnosis.\<newline>''
     @ ''\<newline>Modality: '' @ dict_get data ''modality'' ''''
     @ ''\<newline>Body Part: '' @ dict_get data ''body_part'' ''''
     @ ''\<newline>Clinical Indication: '' @ dict_get data ''indication'' ''''
     @ ''\<newline>Findings: '' @ dict_get data ''findings'' ''''
     @ ''\<newline>\<newline>Provide:\<newline>1. A concise professional ''
     @ ''Impression (2-3 sentences)\<newline>2. Key differentials (bullet ''
     @ ''list, max 4)\<newline>3. Recommended follow-up if ''
     @ ''appropriate\<newline>\<newline>IMPORTANT: Prefix with: 'AI-ASSISTED ''
     @ ''SUGGESTION '' @ em_dash @ '' Requires radiologist review and sign-off.''
     @ [CHR 0x27]"

definition aria_query ::
  "env \<Rightarrow> (string \<rightharpoonup> string) \<Rightarrow> string \<Rightarrow> state \<Rightarrow> (error + string) \<times> state" where
  "aria_query e data token st =
     (case verify_token st token of
        Inl err \<Rightarrow> (Inl err, st)
      | Inr username \<Rightarrow>
          (case chat_completions e ''gpt-4o''
                  [(''system'', aria_system_prompt), (''user'', dict_get data ''query'' '''')]
                  400 of
             Inr content \<Rightarrow> (Inr content, st)
           | Inl exc \<Rightarrow> (Inr (''ARIA is temporarily unavailable: '' @ exc), st)))"

definition aria_assist_report ::
  "env \<Rightarrow> (string \<rightharpoonup> string) \<Rightarrow> string \<Rightarrow> state \<Rightarrow> (error + string) \<times> state" where
  "aria_assist_report e data token st =
     (case verify_token st token of
        Inl err \<Rightarrow> (Inl err, st)
      | Inr username \<Rightarrow>
          (case chat_completions e ''gpt-4o'' [(''user'', assist_report_prompt data)] 500 of
             Inr content \<Rightarrow> (Inr content, st)
           | Inl exc \<Rightarrow> (Inl (Server_Error exc), st)))"

definition aria_transcribe ::
  "env \<Rightarrow> string \<Rightarrow> string \<Rightarrow> state \<Rightarrow> (error + string) \<times> state" where
  "aria_transcribe e audio token st =
     (case verify_token st token of
        Inl err \<Rightarrow> (Inl err, st)
      | Inr username \<Rightarrow>
          (case audio_transcriptions e ''whisper-1'' audio ''audio.webm'' ''en'' of
             Inr transcript \<Rightarrow> (Inr transcript, st)
           | Inl exc \<Rightarrow> (Inl (Server_Error exc), st)))"

definition aria_speak ::
  "env \<Rightarrow> (string \<rightharpoonup> string) \<Rightarrow> string \<Rightarrow> state \<Rightarrow> (error + string) \<times> state" where
  "aria_speak e data token st =
     (case verify_token st token of
        Inl err \<Rightarrow> (Inl err, st)
      | Inr username \<Rightarrow>
          (let voice = dict_get data ''voice'' ''nova'' in
           case audio_speech e ''tts-1'' voice (dict_get data ''text'' '''') (95 / 100) of
             Inr content \<Rightarrow> (Inr content, st)
           | Inl exc \<Rightarrow> (Inl (Server_Error exc), st)))"

subsection \<open>Synthetic data: the pools\<close>

definition FIRST_NAMES_F :: "string list" where
  "FIRST_NAMES_F =
     [''Sarah'', ''Emma'', ''Olivia'', ''Amara'', ''Priya'', ''Fatima'', ''Grace'',
      ''Charlotte'', ''Ava'', ''Zara'', ''Diane'', ''Helen'', ''Margaret'', ''Aisha'',
      ''Mei'', ''Rosa'', ''Ingrid'', ''Clare'', ''Patricia'', ''Nadia'']"

definition FIRST_NAMES_M :: "string list" where
  "FIRST_NAMES_M =
     [''James'', ''Mohammed'', ''David'', ''Oliver'', ''Liam'', ''Ethan'', ''George'',
      ''Daniel'', ''Kwame'', ''Ahmed'', ''Robert'', ''Michael'', ''Thomas'', ''Samuel'',
      ''Rajan'', ''Tariq'', ''Patrick'', ''Leon'', ''Victor'', ''Hugo'']"

definition LAST_NAMES :: "string list" where
  "LAST_NAMES =
     [''Smith'', ''Johnson'', ''Williams'', ''Brown'', ''Jones'', ''Taylor'',
      ''Davies'', ''Wilson'', ''Evans'', ''Thomas'', ''Roberts'', ''Walker'', ''White'',
      ''Hall'', ''Martin'', ''Ahmed'', ''Khan'', ''Patel'', ''Singh'', ''Okafor'',
      ''Chen'', ''Kim'', ''M'' @ [CHR 0xC3, CHR 0xBC] @ ''ller'', ''Rossi'', ''Garcia'',
      ''Dubois'', ''Andersen'', ''Kowalski'', ''Ferreira'', ''Nguyen'']"

definition CLINICIANS :: "string list" where
  "CLINICIANS =
     [''Dr. A. Patel'', ''Dr. S. Rahman'', ''Dr. K. Obi'', ''Dr. L. Chen'',
      ''Dr. M. Kowalski'', ''Dr. F. Adeyemi'', ''Dr. R. Singh'', ''Dr. T. Williams'',
      ''Dr. E. Johansson'', ''Dr. N. Mwangi'']"

definition LOCATIONS :: "string list" where
  "LOCATIONS =
     [''Emergency Department'', ''Cardiology'', ''Neurology'', ''Oncology'',
      ''General Medicine'', ''ICU'', ''Orthopaedics'', ''Gastroenterology'',
      ''Respiratory'', ''Vascular Surgery'']"

definition ALLERGIES_POOL :: "string list" where
  "ALLERGIES_POOL =
     [''Penicillin'', ''Aspirin'', ''Ibuprofen'', ''Contrast media'', ''Latex'',
      ''Morphine'', ''Codeine'', ''Sulfonamides'', ''None known'']"

definition ALERTS_POOL :: "string list" where
  "ALERTS_POOL =
     [''Fall risk'', ''DNACPR'', ''Infection control'', ''Bariatric'',
      ''Implanted device'', ''Pregnancy '' @ em_dash @ '' confirm'',
      ''Renal impairment'', ''Contrast caution'']"

definition STUDY_TEMPLATES :: "(string \<times> string \<times> string \<times> string) list" where
  "STUDY_TEMPLATES =
     [(''CT'', ''Head'',
       ''CT Head without contrast '' @ em_dash @ '' query intracranial haemorrhage'', ''Urgent''),
      (''CT'', ''Chest'',
       ''CT Pulmonary Angiography '' @ em_dash @ '' query pulmonary embolism'', ''Urgent''),
      (''CT'', ''Abdomen'',
       ''CT Abdomen/Pelvis with contrast '' @ em_dash @ '' query appendicitis'', ''Urgent''),
      (''CT'', ''Chest'',
       ''CT Chest '' @ em_dash @ '' query lung malignancy'', ''Routine''),
      (''CT'', ''Head'',
       ''CT Head with contrast '' @ em_dash @ '' query brain metastases'', ''Routine''),
      (''CT'', ''Spine'',
       ''CT Spine '' @ em_dash @ '' query cord compression'', ''Urgent''),
      (''CT'', ''Abdomen'',
       ''CT Abdomen '' @ em_dash @ '' query aortic aneurysm'', ''Emergency''),
      (''CT'', ''Chest'',
       ''CT Chest '' @ em_dash @ '' staging non-small cell lung cancer'', ''Routine''),
      (''CT'', ''Head'',
       ''CT Head '' @ em_dash @ '' query subdural haematoma'', ''Emergency''),
      (''CT'', ''Abdomen'',
       ''CT Abdomen '' @ em_dash @ '' post-operative review'', ''Routine''),
      (''MRI'', ''Brain'',
       ''MRI Brain with/without contrast '' @ em_dash @ '' seizures'', ''Urgent''),
      (''MRI'', ''Brain'',
       ''MRI Brain '' @ em_dash @ '' query demyelination / MS'', ''Routine''),
      (''MRI'', ''Spine'',
       ''MRI Lumbar Spine '' @ em_dash @ '' radiculopathy'', ''Routine''),
      (''MRI'', ''Cardiac'',
       ''MRI Cardiac '' @ em_dash @ '' query cardiomyopathy'', ''Routine''),
      (''MRI'', ''Brain'',
       ''MRI Brain '' @ em_dash @ '' query acute stroke'', ''Emergency''),
      (''MRI'', ''Abdomen'',
       ''MRI Liver '' @ em_dash @ '' query hepatocellular carcinoma'', ''Routine''),
      (''MRI'', ''Pelvis'',
       ''MRI Pelvis '' @ em_dash @ '' staging rectal cancer'', ''Routine''),
      (''MRI'', ''Knee'',
       ''MRI Knee '' @ em_dash @ '' query meniscal tear'', ''Routine''),
      (''XR'', ''Chest'',
       ''Chest X-ray '' @ em_dash @ '' shortness of breath'', ''Urgent''),
      (''XR'', ''Chest'',
       ''Chest X-ray '' @ em_dash @ '' query pneumonia'', ''Urgent''),
      (''XR'', ''Chest'',
       ''Chest X-ray '' @ em_dash @ '' query pneumothorax'', ''Emergency''),
      (''XR'', ''Chest'',
       ''Chest X-ray '' @ em_dash @ '' routine post-procedure'', ''Routine''),
      (''XR'', ''Abdomen'',
       ''Abdominal X-ray '' @ em_dash @ '' query obstruction'', ''Urgent''),
      (''XR'', ''MSK'',
       ''X-ray Hip '' @ em_dash @ '' query fracture'', ''Urgent''),
      (''XR'', ''MSK'',
       ''X-ray Wrist '' @ em_dash @ '' post-trauma'', ''Routine''),
      (''US'', ''Abdomen'',
       ''Ultrasound Abdomen '' @ em_dash @ '' right upper quadrant pain'', ''Urgent''),
      (''US'', ''Pelvis'',
       ''Ultrasound Pelvis '' @ em_dash @ '' pelvic pain'', ''Routine''),
      (''US'', ''Neck'',
       ''Ultrasound Thyroid '' @ em_dash @ '' query nodule'', ''Routine''),
      (''US'', ''Vascular'',
       ''Ultrasound Duplex '' @ em_dash @ '' query DVT'', ''Urgent''),
      (''US'', ''Abdomen'',
       ''Ultrasound Liver '' @ em_dash @ '' abnormal LFTs'', ''Routine''),
      (''NM'', ''Chest'',
       ''Nuclear Medicine V/Q Scan '' @ em_dash @ '' query PE'', ''Urgent''),
      (''NM'', ''Bone'',
       ''Nuclear Medicine Bone Scan '' @ em_dash @ '' staging'', ''Routine''),
      (''NM'', ''Cardiac'',
       ''Nuclear Medicine Myocardial Perfusion '' @ em_dash @ '' angina'', ''Routine'')]"

definition CRITICAL_FINDINGS :: "string list" where
  "CRITICAL_FINDINGS =
     [''Acute large vessel occlusion '' @ em_dash
      @ '' immediate stroke team activation required'',
      ''Massive pulmonary embolism with right heart strain '' @ em_dash
      @ '' urgent cardiology review'',
      ''Acute aortic dissection type A '' @ em_dash
      @ '' immediate cardiothoracic surgery referral'',
      ''Tension pneumothorax '' @ em_dash @ '' immediate decompression required'',
      ''Acute subdural haematoma with midline shift '' @ em_dash
      @ '' urgent neurosurgical review'',
      ''Ruptured abdominal aortic aneurysm '' @ em_dash
      @ '' immediate vascular surgery'',
      ''Cord compression at C4 '' @ em_dash @ '' immediate neurosurgical referral'',
      ''New intracranial haemorrhage '' @ em_dash @ '' neurosurgical review required'']"

definition REPORT_FINDINGS :: "(string \<times> string list) list" where
  "REPORT_FINDINGS =
     [(''CT'',
       [''No acute intracranial abnormality identified. No haemorrhage, mass ''
          @ ''effect or midline shift. Ventricles and sulci appear normal for age.'',
        ''There is evidence of a focal consolidative change in the right lower ''
          @ ''lobe consistent with pneumonia. No pleural effusion. Mediastinum ''
          @ ''normal.'',
        ''Filling defect identified within the right main pulmonary artery ''
          @ ''consistent with acute pulmonary embolism. Evidence of right heart ''
          @ ''strain.'']),
      (''MRI'',
       [''Multiple periventricular and juxtacortical T2/FLAIR hyperintense ''
          @ ''lesions identified, the morphology and distribution of which is ''
          @ ''consistent with demyelinating disease.'',
        ''No restricted diffusion to suggest acute infarction. No haemorrhage ''
          @ ''or mass lesion. Background white matter changes consistent with small ''
          @ ''vessel disease.'',
        ''Large heterogeneous hepatic lesion in segment 6/7 measuring 4.2 x ''
          @ ''3.8cm. Enhancement pattern is consistent with hepatocellular ''
          @ ''carcinoma.'']),
      (''XR'',
       [''Heart size is at the upper limit of normal. Lung fields are clear. No ''
          @ ''pleural effusion or pneumothorax. Bony structures intact.'',
        ''Increased opacification in the left lower zone consistent with ''
          @ ''consolidation or collapse. Clinical correlation advised.'',
        ''Gas pattern within normal limits. No evidence of obstruction or ''
          @ ''perforation. No abnormal calcification.'']),
      (''US'',
       [''The liver is of normal size and echotexture. No focal lesion ''
          @ ''identified. Gallbladder wall not thickened. No pericholecystic fluid. ''
          @ ''CBD measures 4mm.'',
        ''The right common femoral vein is non-compressible with absent flow on ''
          @ ''colour Doppler, findings consistent with acute deep vein thrombosis.'',
        ''Normal sized uterus and ovaries. No adnexal mass or free fluid. ''
          @ ''Endometrial thickness 6mm.'']),
      (''NM'',
       [''Matched ventilation/perfusion defects in the right lower lobe. Low ''
          @ ''probability for pulmonary embolism.'',
        ''Increased tracer uptake in multiple vertebral bodies and the right ''
          @ ''5th rib, findings consistent with widespread bony metastatic disease.''])]"

subsection \<open>Synthetic data: the generator\<close>

text \<open>
  \<open>random.choice\<close>, \<open>random.sample\<close> and \<open>random.random\<close> on the draws they consume.
  \<open>choice\<close> is only called on the non-empty pools above, and \<open>sample\<close> draws at most
  three entries of a pool of eight or nine. \<open>random()\<close> is an integer below \<open>2^53\<close>
  over \<open>2^53\<close>.
\<close>

definition choice :: "'a list \<Rightarrow> nat \<Rightarrow> 'a" where
  "choice xs r = xs ! (r mod length xs)"

fun sample :: "env \<Rightarrow> nat \<Rightarrow> 'a list \<Rightarrow> nat \<Rightarrow> 'a list" where
  "sample e k population 0 = []"
| "sample e k population (Suc n) =
     (let i = rand e k mod length population
      in population ! i # sample e (Suc k) (take i population @ drop (Suc i) population) n)"

definition random_unit :: "nat \<Rightarrow> real" where
  "random_unit r = real (r mod 2 ^ 53) / 2 ^ 53"

text \<open>
  \<open>random_dob()\<close> reads two draws (age, then days) and \<open>random_time(days_back)\<close> one
  (hours; \<open>hours_back\<close> is 12 at every call). Days are 1440 minutes of the clock.
\<close>

definition random_dob :: "env \<Rightarrow> nat \<Rightarrow> string" where
  "random_dob e k =
     (let age = randint 18 90 (rand e k)
      in strftime_date e (clock e div 1440 - (age * 365 + randint 0 364 (rand e (k + 1)))))"

definition random_time :: "env \<Rightarrow> int \<Rightarrow> nat \<Rightarrow> string" where
  "random_time e days_back k =
     strftime e (clock e - (days_back * 1440 + randint 0 12 (rand e k) * 60))"

text \<open>
  \<open>sep in s\<close>, \<open>s.split(sep)[-1]\<close> for a separator that cannot overlap itself (the
  dash), and \<open>s.strip()\<close>.
\<close>

fun contains :: "string \<Rightarrow> string \<Rightarrow> bool" where
  "contains sep [] = (sep = [])"
| "contains sep (c # cs) = (prefix sep (c # cs) \<or> contains sep cs)"

fun split_last :: "string \<Rightarrow> string \<Rightarrow> string" where
  "split_last sep [] = []"
| "split_last sep (c # cs) =
     (if contains sep cs then split_last sep cs
      else if prefix sep (c # cs) then drop (length sep) (c # cs)
      else c # cs)"

definition is_space :: "char \<Rightarrow> bool" where
  "is_space c = (c = CHR '' '' \<or> (CHR 0x09 \<le> c \<and> c \<le> CHR 0x0D) \<or> (CHR 0x1C \<le> c \<and> c \<le> CHR 0x1F))"

definition strip :: "string \<Rightarrow> string" where
  "strip s = rev (dropWhile is_space (rev (dropWhile is_space s)))"

text \<open>The primary keys of the other tables.\<close>

definition insert_order :: "database \<Rightarrow> order \<Rightarrow> exn + database" where
  "insert_order db od =
     (if o_order_id od \<in> set (map o_order_id (orders db)) then Inl IntegrityError
      else Inr (db\<lparr>orders := orders db @ [od]\<rparr>))"

definition insert_study :: "database \<Rightarrow> study \<Rightarrow> exn + database" where
  "insert_study db s =
     (if s_study_id s \<in> set (map s_study_id (studies db)) then Inl IntegrityError
      else Inr (db\<lparr>studies := studies db @ [s]\<rparr>))"

definition insert_series :: "database \<Rightarrow> series \<Rightarrow> exn + database" where
  "insert_series db x =
     (if x_series_id x \<in> set (map x_series_id (series_rows db)) then Inl IntegrityError
      else Inr (db\<lparr>series_rows := series_rows db @ [x]\<rparr>))"

text \<open>
  The patient row of one round of the outer loop, from call \<open>k\<close> on, and the number of
  the next call.
\<close>

definition generate_patient :: "env \<Rightarrow> nat \<Rightarrow> patient \<times> nat" where
  "generate_patient e k =
     (let sex = choice [''M'', ''F'', ''M'', ''F'', ''M''] (rand e k);
          fname = choice (if sex = ''M'' then FIRST_NAMES_M else FIRST_NAMES_F) (rand e (k + 1));
          lname = choice LAST_NAMES (rand e (k + 2));
          pid = uuid4 e (k + 3);
          mrn = ''KCH'' @ str_int (randint 1000000 9999999 (rand e (k + 4)));
          n_allergies = nat (randint 1 3 (rand e (k + 5)));
          allergies = json_dumps e (sample e (k + 6) ALLERGIES_POOL n_allergies);
          k1 = k + 6 + n_allergies;
          n_alerts = nat (randint 0 2 (rand e k1));
          alerts = json_dumps e (sample e (k1 + 1) ALERTS_POOL n_alerts);
          k2 = k1 + 1 + n_alerts
      in (\<lparr>p_patient_id = pid, p_mrn = Some mrn, p_first_name = Some fname,
           p_last_name = Some lname, p_dob = Some (random_dob e k2), p_sex = Some sex,
           p_phone = ''+44 7'' @ str_int (randint 100 999 (rand e (k2 + 2))) @ '' ''
                     @ str_int (randint 100000 999999 (rand e (k2 + 3))),
           p_allergies = allergies, p_alerts = alerts,
           p_infection_flags = json_dumps e []\<rparr>,
          k2 + 4))"

text \<open>\<open>for sn in range(1, n_series+1)\<close>: two calls a round, the id and the plane.\<close>

fun generate_series ::
  "env \<Rightarrow> string \<Rightarrow> int list \<Rightarrow> nat \<Rightarrow> database \<Rightarrow> exn + nat \<times> database" where
  "generate_series e sid [] k db = Inr (k, db)"
| "generate_series e sid (sn # sns) k db =
     (case insert_series db
             \<lparr>x_series_id = uuid4 e k, x_study_id = sid, x_series_number = sn,
              x_series_description =
                ''Series '' @ str_int sn @ '' '' @ em_dash @ '' ''
                @ choice [''Axial'', ''Sagittal'', ''Coronal'', ''MIP'', ''Scout'']
                    (rand e (k + 1))\<rparr> of
        Inl x \<Rightarrow> Inl x
      | Inr db' \<Rightarrow> generate_series e sid sns (k + 2) db')"

text \<open>
  The report of a reported study, after the series: the findings of the modality's pool
  (\<open>REPORT_FINDINGS.get(tmpl[0], REPORT_FINDINGS["XR"])\<close>), the critical sentence when
  the study is critical, then the row.
\<close>

definition critical_prefix :: string where
  "critical_prefix = ''\<newline>\<newline>'' @ warning_sign @ '' CRITICAL FINDING: ''"

definition generate_report ::
  "env \<Rightarrow> string \<times> string \<times> string \<times> string \<Rightarrow> bool \<Rightarrow> string \<Rightarrow> string \<Rightarrow>
   nat \<Rightarrow> database \<Rightarrow> exn + nat \<times> database" where
  "generate_report e tmpl is_critical report_status sid k db =
     (case tmpl of (modality, body_part, description, priority) \<Rightarrow>
      case map_of REPORT_FINDINGS ''XR'' of
        None \<Rightarrow> Inl KeyError
      | Some xr \<Rightarrow>
          (let findings_pool = (case map_of REPORT_FINDINGS modality of
                                  None \<Rightarrow> xr | Some pool \<Rightarrow> pool);
               findings = choice findings_pool (rand e k);
               findings' = (if is_critical
                            then findings @ critical_prefix
                                 @ choice CRITICAL_FINDINGS (rand e (k + 1))
                            else findings);
               k1 = (if is_critical then k + 2 else k + 1)
           in case insert_report db
                     \<lparr>r_report_id = uuid4 e k1, r_study_id = Some sid,
                      r_author = choice CLINICIANS (rand e (k1 + 1)),
                      r_created_at = random_time e 1 (k1 + 2),
                      r_updated_at = random_time e 0 (k1 + 3),
                      r_indication = Some (''Query '' @ body_part @ '' pathology''),
                      r_technique =
                        Some (modality @ '' '' @ body_part @ '' ''
                              @ (if 1 / 2 < random_unit (rand e (k1 + 4))
                                 then ''with contrast'' else ''without contrast'')),
                      r_findings = Some findings',
                      r_impression =
                        Some (''Findings as above. Clinical correlation advised. Please ''
                              @ ''discuss with reporting radiologist if urgent review ''
                              @ ''required.''),
                      r_sign_status = Some report_status,
                      r_addenda = json_dumps e []\<rparr> of
                Inl x \<Rightarrow> Inl x
              | Inr db' \<Rightarrow> Inr (k1 + 5, db')))"

text \<open>One round of the inner loop: the order, the study, its series, its report.\<close>

definition generate_study ::
  "env \<Rightarrow> real \<Rightarrow> string \<Rightarrow> nat \<Rightarrow> database \<Rightarrow> exn + nat \<times> database" where
  "generate_study e critical_pct pid k db =
     (let tmpl = choice STUDY_TEMPLATES (rand e k) in
      case tmpl of (modality, body_part, description, priority) \<Rightarrow>
      (let is_critical = (random_unit (rand e (k + 1)) < critical_pct / 100);
           report_status =
             choice [''Unreported'', ''Unreported'', ''Unreported'', ''Preliminary'',
                     ''Final'', ''Final''] (rand e (k + 2));
           oid = uuid4 e (k + 3);
           sid = uuid4 e (k + 4)
       in case insert_order db
                 \<lparr>o_order_id = oid, o_patient_id = pid,
                  o_ordering_clinician = choice CLINICIANS (rand e (k + 5)),
                  o_ordering_location = choice LOCATIONS (rand e (k + 6)),
                  o_indication =
                    ''Query '' @ (if contains em_dash description
                                  then strip (split_last em_dash description)
                                  else body_part),
                  o_priority = priority, o_status = ''Active'',
                  o_created_at = random_time e (randint 0 7 (rand e (k + 7))) (k + 8)\<rparr> of
            Inl x \<Rightarrow> Inl x
          | Inr db1 \<Rightarrow>
              (case insert_study db1
                      \<lparr>s_study_id = sid, s_patient_id = pid, s_order_id = oid,
                       s_modality = modality, s_description = description,
                       s_body_part = body_part,
                       s_scheduled_time =
                         random_time e (randint 0 3 (rand e (k + 9))) (k + 10),
                       s_acquisition_time =
                         random_time e (randint 0 2 (rand e (k + 11))) (k + 12),
                       s_accession =
                         ''ACC'' @ str_int (randint 10000000 99999999 (rand e (k + 13))),
                       s_report_status = report_status, s_critical_flag = is_critical,
                       s_pacs_status = ''Available''\<rparr> of
                 Inl x \<Rightarrow> Inl x
               | Inr db2 \<Rightarrow>
                   (let n_series = randint 1 4 (rand e (k + 14)) in
                    case generate_series e sid [1..n_series] (k + 15) db2 of
                      Inl x \<Rightarrow> Inl x
                    | Inr (k3, db3) \<Rightarrow>
                        if report_status \<in> set [''Preliminary'', ''Final'']
                        then generate_report e tmpl is_critical report_status sid k3 db3
                        else Inr (k3, db3)))))"

text \<open>\<open>for _ in range(n_studies)\<close>, counting the studies made.\<close>

fun generate_studies ::
  "env \<Rightarrow> real \<Rightarrow> string \<Rightarrow> nat \<Rightarrow> nat \<Rightarrow> database \<Rightarrow> nat \<Rightarrow> exn + nat \<times> database \<times> nat" where
  "generate_studies e critical_pct pid 0 k db studies_created = Inr (k, db, studies_created)"
| "generate_studies e critical_pct pid (Suc n) k db studies_created =
     (case generate_study e critical_pct pid k db of
        Inl x \<Rightarrow> Inl x
      | Inr (k', db') \<Rightarrow>
          generate_studies e critical_pct pid n k' db' (studies_created + 1))"

text \<open>
  \<open>for _ in range(n_patients)\<close>. A patient row the table refuses is skipped
  (\<open>except: continue\<close>) before any study is drawn. \<open>random.randint(1,
  studies_per_patient)\<close> raises ValueError on an empty range.
\<close>

fun generate_patients ::
  "env \<Rightarrow> int \<Rightarrow> real \<Rightarrow> nat \<Rightarrow> nat \<Rightarrow> database \<Rightarrow> nat \<Rightarrow> nat \<Rightarrow>
   exn + database \<times> nat \<times> nat" where
  "generate_patients e studies_per_patient critical_pct 0 k db patients_created
     studies_created = Inr (db, patients_created, studies_created)"
| "generate_patients e studies_per_patient critical_pct (Suc n) k db patients_created
     studies_created =
     (case generate_patient e k of (p, k1) \<Rightarrow>
      case insert_patient db p of
        Inl x \<Rightarrow>
          generate_patients e studies_per_patient critical_pct n k1 db patients_created
            studies_created
      | Inr db1 \<Rightarrow>
          if studies_per_patient < 1 then Inl ValueError
          else (let n_studies = randint 1 studies_per_patient (rand e k1) in
                case generate_studies e critical_pct (p_patient_id p) (nat n_studies)
                       (k1 + 1) db1 studies_created of
                  Inl x \<Rightarrow> Inl x
                | Inr (k2, db2, studies_created') \<Rightarrow>
                    generate_patients e studies_per_patient critical_pct n k2 db2
                      (patients_created + 1) studies_created'))"

record generate_result =
  patients_created :: nat
  studies_created :: nat

definition generate_patients_and_studies ::
  "env \<Rightarrow> int \<Rightarrow> int \<Rightarrow> real \<Rightarrow> database \<Rightarrow> exn + generate_result \<times> database" where
  "generate_patients_and_studies e n_patients studies_per_patient critical_pct db =
     (case generate_patients e studies_per_patient critical_pct (nat n_patients) 0 db 0 0 of
        Inl x \<Rightarrow> Inl x
      | Inr (db', pc, sc) \<Rightarrow> Inr (\<lparr>patients_created = pc, studies_created = sc\<rparr>, db'))"

definition generate_data ::
  "env \<Rightarrow> (string \<rightharpoonup> int) \<Rightarrow> string \<Rightarrow> state \<Rightarrow> (error + generate_result) \<times> state" where
  "generate_data e data token st =
     (case verify_token st token of
        Inl err \<Rightarrow> (Inl err, st)
      | Inr username \<Rightarrow>
          (case generate_patients_and_studies e (dict_get data ''patients'' 50)
                  (dict_get data ''studies_per_patient'' 3)
                  (real_of_int (dict_get data ''critical_pct'' 15)) (DB st) of
             Inl x \<Rightarrow> (Inl (Unhandled x), st)
           | Inr (result, db') \<Rightarrow> (Inr result, st\<lparr>DB := db'\<rparr>)))"

section \<open>The properties in the words of the specification\<close>

subsection \<open>Worklist order\<close>

text \<open>
  What a returned worklist row says: its critical flag, and a text column. The rank is
  the specification's: Emergency 0, Urgent 1, Routine 2, anything else 2. A row precedes
  another when it is critical and the other is not, or both agree on the flag and its rank
  is smaller, or the ranks agree too and it was scheduled no earlier.
\<close>

definition row_critical :: "row \<Rightarrow> bool" where
  "row_critical d = (map_of d ''critical_flag'' = Some (Integer 1))"

definition row_text :: "row \<Rightarrow> string \<Rightarrow> string" where
  "row_text d k = (case map_of d k of Some (Text t) \<Rightarrow> t | _ \<Rightarrow> [])"

definition spec_rank :: "string \<Rightarrow> nat" where
  "spec_rank p =
     (if p = ''Emergency'' then 0 else if p = ''Urgent'' then 1
      else if p = ''Routine'' then 2 else 2)"

definition spec_precedes :: "row \<Rightarrow> row \<Rightarrow> bool" where
  "spec_precedes a b =
     ((row_critical a \<and> \<not> row_critical b) \<or>
      (row_critical a = row_critical b \<and>
        (spec_rank (row_text a ''priority'') < spec_rank (row_text b ''priority'') \<or>
         (spec_rank (row_text a ''priority'') = spec_rank (row_text b ''priority'') \<and>
          row_text b ''scheduled_time'' \<le> row_text a ''scheduled_time''))))"

subsection \<open>Values that can be bound\<close>

text \<open>
  A JSON value SQLite can take as a parameter: null, a boolean, an integer of 64 bits, a
  float, a string with an encoding. A report body is bindable when the narrative fields
  it supplies are.
\<close>

definition bindable :: "json \<Rightarrow> bool" where
  "bindable v =
     (case v of
        JNull \<Rightarrow> True | JBool b \<Rightarrow> True | JInt i \<Rightarrow> int64 i | JFloat x \<Rightarrow> True
      | JStr s \<Rightarrow> True | JStr_surrogate \<Rightarrow> False | JList xs \<Rightarrow> False | JDict kv \<Rightarrow> False)"

definition supplied_bindable :: "(string \<rightharpoonup> json) \<Rightarrow> string \<Rightarrow> bool" where
  "supplied_bindable data key = (case data key of None \<Rightarrow> True | Some v \<Rightarrow> bindable v)"

definition bindable_report_body :: "(string \<rightharpoonup> json) \<Rightarrow> bool" where
  "bindable_report_body data =
     (supplied_bindable data ''indication'' \<and> supplied_bindable data ''technique'' \<and>
      supplied_bindable data ''findings'' \<and> supplied_bindable data ''impression'' \<and>
      supplied_bindable data ''sign_status'')"

subsection \<open>Import batches\<close>

text \<open>
  A well-formed batch is a list of patient-shaped rows: dictionaries whose patient fields,
  where they are supplied, can be bound, with an MRN that is not null.
\<close>

definition patient_shaped :: "json \<Rightarrow> bool" where
  "patient_shaped row =
     (case row of
        JDict kv \<Rightarrow>
          supplied_bindable (map_of kv) ''mrn'' \<and> map_of kv ''mrn'' \<noteq> Some JNull \<and>
          supplied_bindable (map_of kv) ''first_name'' \<and>
          supplied_bindable (map_of kv) ''last_name'' \<and>
          supplied_bindable (map_of kv) ''dob'' \<and> supplied_bindable (map_of kv) ''sex''
      | _ \<Rightarrow> False)"

definition well_formed_batch :: "json list \<Rightarrow> bool" where
  "well_formed_batch rows = list_all patient_shaped rows"

text \<open>
  The MRN the import binds for the row whose calls start at \<open>k\<close> (the row's own, or the
  generated one), the MRNs of a batch in row order, and the patient ids \<open>uuid4\<close> issues
  for a batch of \<open>n\<close> rows.
\<close>

definition import_mrn :: "env \<Rightarrow> nat \<Rightarrow> json \<Rightarrow> string option" where
  "import_mrn e k row =
     (case row of
        JDict kv \<Rightarrow>
          (case bind_text e
                  (dict_get (map_of kv) ''mrn''
                     (JStr (''KCH'' @ str_int (randint 1000000 9999999 (rand e (k + 1)))))) of
             Inl x \<Rightarrow> None
           | Inr mrn \<Rightarrow> mrn)
      | _ \<Rightarrow> None)"

fun import_mrns :: "env \<Rightarrow> nat \<Rightarrow> json list \<Rightarrow> string option list" where
  "import_mrns e k [] = []"
| "import_mrns e k (row # rest) = import_mrn e k row # import_mrns e (k + 2) rest"

fun import_ids :: "env \<Rightarrow> nat \<Rightarrow> nat \<Rightarrow> string list" where
  "import_ids e k 0 = []"
| "import_ids e k (Suc n) = uuid4 e k # import_ids e (k + 2) n"

text \<open>The MRNs of the patients table that are not NULL.\<close>

definition text_mrns :: "database \<Rightarrow> string list" where
  "text_mrns db = [m. Some m \<leftarrow> map p_mrn (patients db)]"

text \<open>
  The JSON body of an export saved under a \<open>.json\<close> name and uploaded: the parser gives
  back the dictionaries that were serialised.
\<close>

definition json_of :: "sql_value \<Rightarrow> json" where
  "json_of v = (case v of Null \<Rightarrow> JNull | Integer i \<Rightarrow> JInt i | Text t \<Rightarrow> JStr t)"

definition json_upload :: "string \<Rightarrow> row list \<Rightarrow> upload" where
  "json_upload name data =
     \<lparr>filename = name @ ''.json'',
      parsed = Some (JList (map (\<lambda>d. JDict (map (\<lambda>(k, v). (k, json_of v)) d)) data))\<rparr>"

text \<open>The MRNs an export mentions: those of the patients with a study joined to its order.\<close>

definition exported_mrns :: "database \<Rightarrow> string option set" where
  "exported_mrns db = (\<lambda>(s, p, od). p_mrn p) ` set (study_join db)"

subsection \<open>Generated data\<close>

text \<open>
  The findings of a report end with the critical-finding sentence: the marker and one of
  the eight critical findings.
\<close>

definition critical_sentence :: "string option \<Rightarrow> bool" where
  "critical_sentence findings =
     (case findings of
        None \<Rightarrow> False
      | Some f \<Rightarrow> (\<exists>c \<in> set CRITICAL_FINDINGS. suffix (critical_prefix @ c) f))"

text \<open>
  The structural contract for one study among the series and reports generated with it:
  it has a series; it has a report exactly when its status is Preliminary or Final; and a
  report of it carries the critical sentence exactly when the study is flagged.
\<close>

definition study_complete :: "study \<Rightarrow> series list \<Rightarrow> report list \<Rightarrow> bool" where
  "study_complete s xs rs =
     ((\<exists>x \<in> set xs. x_study_id x = s_study_id s) \<and>
      ((\<exists>r \<in> set rs. r_study_id r = Some (s_study_id s))
         = (s_report_status s = ''Preliminary'' \<or> s_report_status s = ''Final'')) \<and>
      (\<forall>r \<in> set rs. r_study_id r = Some (s_study_id s) \<longrightarrow>
         critical_sentence (r_findings r) = s_critical_flag s))"

text \<open>
  A database has grown out of another by generation: studies \<open>ss\<close>, series \<open>xs\<close> and
  reports \<open>rs\<close> were appended, the studies under new ids, every report for one of the
  new studies, and every new study complete.
\<close>

definition generated :: "database \<Rightarrow> database \<Rightarrow> study list \<Rightarrow> series list \<Rightarrow> report list \<Rightarrow> bool" where
  "generated db db' ss xs rs =
     (studies db' = studies db @ ss \<and> series_rows db' = series_rows db @ xs \<and>
      reports db' = reports db @ rs \<and>
      distinct (map s_study_id ss) \<and>
      set (map s_study_id ss) \<inter> set (map s_study_id (studies db)) = {} \<and>
      (\<forall>r \<in> set rs. r_study_id r \<in> Some ` set (map s_study_id ss)) \<and>
      (\<forall>s \<in> set ss. study_complete s xs rs))"

subsection \<open>Reports and their studies\<close>

text \<open>Every report row references an existing study.\<close>

definition reports_reference_studies :: "database \<Rightarrow> bool" where
  "reports_reference_studies db =
     (\<forall>r \<in> set (reports db). r_study_id r \<in> Some ` set (map s_study_id (studies db)))"

section \<open>A small hospital\<close>

text \<open>
  One patient with four studies and one signed report, a session for \<open>david\<close>, and a
  world whose draws, identifiers and clock are fixed: the concrete inputs on which the
  theorems below are run.
\<close>

definition demo_patient :: patient where
  "demo_patient =
     \<lparr>p_patient_id = ''p1'', p_mrn = Some ''KCH1000001'', p_first_name = Some ''Sarah'',
      p_last_name = Some ''Smith'', p_dob = Some ''1980-02-03'', p_sex = Some ''F'',
      p_phone = ''+44 7100 100000'', p_allergies = ''[]'', p_alerts = ''[]'',
      p_infection_flags = ''[]''\<rparr>"

definition demo_order :: "string \<Rightarrow> string \<Rightarrow> order" where
  "demo_order oid priority =
     \<lparr>o_order_id = oid, o_patient_id = ''p1'', o_ordering_clinician = ''Dr. A. Patel'',
      o_ordering_location = ''ICU'', o_indication = ''Query pneumonia'',
      o_priority = priority, o_status = ''Active'', o_created_at = ''2024-01-01 08:00''\<rparr>"

definition demo_study :: "string \<Rightarrow> string \<Rightarrow> string \<Rightarrow> string \<Rightarrow> bool \<Rightarrow> study" where
  "demo_study sid oid scheduled status critical =
     \<lparr>s_study_id = sid, s_patient_id = ''p1'', s_order_id = oid, s_modality = ''XR'',
      s_description = ''Chest X-ray'', s_body_part = ''Chest'',
      s_scheduled_time = scheduled, s_acquisition_time = scheduled,
      s_accession = ''ACC'' @ sid, s_report_status = status,
      s_critical_flag = critical, s_pacs_status = ''Available''\<rparr>"

definition demo_report :: report where
  "demo_report =
     \<lparr>r_report_id = ''r1'', r_study_id = Some ''s2'', r_author = ''david'',
      r_created_at = ''2024-01-01 12:00'', r_updated_at = ''2024-01-01 12:30'',
      r_indication = Some ''Query pneumonia'', r_technique = Some ''XR Chest'',
      r_findings = Some ''Lung fields are clear.'', r_impression = Some ''Normal.'',
      r_sign_status = Some ''Final'', r_addenda = ''[]''\<rparr>"

definition demo_db :: database where
  "demo_db =
     \<lparr>patients = [demo_patient],
      orders = [demo_order ''o1'' ''Emergency'', demo_order ''o2'' ''Routine'',
                demo_order ''o3'' ''Urgent'', demo_order ''o4'' ''Emergency''],
      studies = [demo_study ''s1'' ''o1'' ''2024-01-02 10:00'' ''Unreported'' False,
                 demo_study ''s2'' ''o2'' ''2024-01-01 09:00'' ''Final'' True,
                 demo_study ''s3'' ''o3'' ''2024-01-01 07:00'' ''Unreported'' True,
                 demo_study ''s4'' ''o4'' ''2024-01-03 08:00'' ''Unreported'' False],
      series_rows = [],
      reports = [demo_report]\<rparr>"

definition demo_state :: state where
  "demo_state = \<lparr>SESSIONS = [''tok'' \<mapsto> ''david''], DB = demo_db\<rparr>"

definition demo_env :: env where
  "demo_env =
     \<lparr>rand = (\<lambda>k. 7 * k + 3),
      uuid4 = (\<lambda>k. ''uuid-'' @ str_int (int k)),
      clock = 28401120,
      strftime = (\<lambda>t. ''minute '' @ str_int t),
      strftime_date = (\<lambda>d. ''day '' @ str_int d),
      json_dumps = (\<lambda>xs. ''['' @ (case map (\<lambda>s. CHR 0x22 # s @ [CHR 0x22]) xs of
                                   [] \<Rightarrow> []
                                 | x # ys \<Rightarrow> x @ concat (map (\<lambda>y. '', '' @ y) ys)) @ '']''),
      float_text = (\<lambda>x. str_int (floor x) @ ''.0''),
      chat_completions = (\<lambda>model messages max_tokens. Inr ''Clinical correlation advised.''),
      audio_transcriptions = (\<lambda>model audio name language. Inr ''No acute abnormality.''),
      audio_speech = (\<lambda>model voice text speed. Inr ''ID3'')\<rparr>"

definition demo_rows :: "json list" where
  "demo_rows =
     [JDict [(''mrn'', JStr ''KCH1000001''), (''first_name'', JStr ''Sarah'')],
      JDict [(''mrn'', JStr ''KCH2000002''), (''first_name'', JStr ''Emma'')],
      JDict [(''mrn'', JStr ''KCH2000002''), (''first_name'', JStr ''Olivia'')],
      JDict [(''first_name'', JStr ''Grace''), (''sex'', JStr ''F'')]]"

definition demo_batch :: upload where
  "demo_batch = \<lparr>filename = ''patients.json'', parsed = Some (JList demo_rows)\<rparr>"

definition demo_outpatient :: patient where
  "demo_outpatient =
     demo_patient\<lparr>p_patient_id := ''p2'', p_mrn := Some ''KCH1000002'',
                  p_first_name := Some ''Emma''\<rparr>"

definition demo_state2 :: state where
  "demo_state2 =
     \<lparr>SESSIONS = [''tok'' \<mapsto> ''david''],
      DB = demo_db\<lparr>patients := [demo_patient, demo_outpatient]\<rparr>\<rparr>"

definition empty_state :: state where
  "empty_state =
     \<lparr>SESSIONS = [''tok'' \<mapsto> ''david''],
      DB = \<lparr>patients = [], orders = [], studies = [], series_rows = [], reports = []\<rparr>\<rparr>"

text \<open>
  The same world with other draws, in which the first study the generator makes is signed
  and critical.
\<close>

definition gen_env :: env where
  "gen_env = demo_env\<lparr>rand := (\<lambda>k. 7 * k + 5)\<rparr>"

section \<open>Properties\<close>

lemmas demo_defs =
  demo_state_def demo_db_def demo_patient_def demo_order_def demo_study_def demo_report_def

subsection \<open>Sorting\<close>

lemma set_insort_by: "set (insort_by le a xs) = insert a (set xs)"
  by (induction xs) auto

lemma length_insort_by: "length (insort_by le a xs) = Suc (length xs)"
  by (induction xs) auto

lemma length_order_by: "length (order_by le xs) = length xs"
  by (induction xs) (auto simp: length_insort_by)

lemma set_order_by: "set (order_by le xs) = set xs"
  by (induction xs) (auto simp: set_insort_by)

lemma sorted_insort_by:
  assumes tot: "\<And>x y. le x y \<or> le y x" and tr: "\<And>x y z. le x y \<Longrightarrow> le y z \<Longrightarrow> le x z"
  shows "sorted_wrt le xs \<Longrightarrow> sorted_wrt le (insort_by le a xs)"
proof (induction xs)
  case Nil
  then show ?case by simp
next
  case (Cons b bs)
  show ?case
  proof (cases "le a b")
    case True
    have "\<forall>y\<in>set bs. le a y" using Cons.prems True tr by auto
    with True Cons.prems show ?thesis by simp
  next
    case False
    then have "le b a" using tot by blast
    with False Cons show ?thesis by (auto simp: set_insort_by)
  qed
qed

lemma sorted_order_by:
  assumes tot: "\<And>x y. le x y \<or> le y x" and tr: "\<And>x y z. le x y \<Longrightarrow> le y z \<Longrightarrow> le x z"
  shows "sorted_wrt le (order_by le xs)"
  by (induction xs) (auto intro: sorted_insort_by [OF tot tr])

lemma sorted_limit_offset:
  "sorted_wrt le xs \<Longrightarrow> limit_offset l off xs = Inr ys \<Longrightarrow> sorted_wrt le ys"
  by (auto simp: limit_offset_def Let_def split: if_splits)

subsection \<open>The worklist\<close>

lemma worklist_order_total: "worklist_order a b \<or> worklist_order b a"
  by (cases a; cases b) (auto simp: worklist_order_def)

lemma worklist_order_trans:
  "worklist_order a b \<Longrightarrow> worklist_order b c \<Longrightarrow> worklist_order a c"
  by (cases a; cases b; cases c) (auto simp: worklist_order_def split: if_splits)

lemma priority_case_spec: "priority_case p = spec_rank p"
  by (simp add: priority_case_def spec_rank_def)

lemma worklist_row_critical: "row_critical (worklist_row (s, p, od)) = s_critical_flag s"
  by (simp add: worklist_row_def row_critical_def flag_value_def)

lemma worklist_row_priority: "row_text (worklist_row (s, p, od)) ''priority'' = o_priority od"
  by (simp add: worklist_row_def row_text_def)

lemma worklist_row_scheduled:
  "row_text (worklist_row (s, p, od)) ''scheduled_time'' = s_scheduled_time s"
  by (simp add: worklist_row_def row_text_def)

lemma worklist_order_precedes:
  "worklist_order a b \<Longrightarrow> spec_precedes (worklist_row a) (worklist_row b)"
  by (cases a; cases b)
     (auto simp: worklist_order_def spec_precedes_def worklist_row_critical
        worklist_row_priority worklist_row_scheduled priority_case_spec split: if_splits)

lemma worklist_Inr:
  assumes "worklist token modality status priority search limit offset st = (Inr r, st')"
  obtains page where
    "limit_offset limit offset
       (order_by worklist_order
          (filter (worklist_where modality status priority search) (study_join (DB st))))
     = Inr page"
    and "r = \<lparr>wl_studies = map worklist_row page, wl_total = length page\<rparr>"
  using assms by (auto simp: worklist_def split: sum.splits)

lemma demo_worklist_run:
  assumes "int64 limit" and "int64 offset"
  shows "worklist ''tok'' [] [] [] [] limit offset demo_state =
     (Inr (projr (fst (worklist ''tok'' [] [] [] [] limit offset demo_state))), demo_state)"
  using assms
  by (simp add: demo_state_def worklist_def verify_token_def limit_offset_def Let_def)

text \<open>
  C1. Whatever the filters and the page, the studies a worklist request returns stand in
  the order of the specification: every critical study before every study that is not,
  within each of the two groups by rank (Emergency, Urgent, then Routine and any other
  priority), and within one rank the later scheduled time first.
\<close>

theorem worklist_sorted:
  assumes "worklist token modality status priority search limit offset st = (Inr r, st')"
  shows "sorted_wrt spec_precedes (wl_studies r)"
proof -
  let ?xs = "order_by worklist_order
               (filter (worklist_where modality status priority search) (study_join (DB st)))"
  from assms obtain page where page: "limit_offset limit offset ?xs = Inr page"
    and r: "r = \<lparr>wl_studies = map worklist_row page, wl_total = length page\<rparr>"
    by (rule worklist_Inr)
  have "sorted_wrt worklist_order ?xs"
    by (rule sorted_order_by [OF worklist_order_total worklist_order_trans])
  then have "sorted_wrt worklist_order page"
    using page by (rule sorted_limit_offset)
  then have "sorted_wrt (\<lambda>a b. spec_precedes (worklist_row a) (worklist_row b)) page"
    by (rule sorted_wrt_mono_rel [rotated]) (simp add: worklist_order_precedes)
  then show ?thesis
    by (simp add: r sorted_wrt_map)
qed

theorem worklist_sorted_witness:
  "map (\<lambda>d. row_text d ''study_id'')
     (wl_studies (projr (fst (worklist ''tok'' [] [] [] [] 100 0 demo_state))))
     = [''s3'', ''s2'', ''s4'', ''s1''] \<and>
   sorted_wrt spec_precedes
     (wl_studies (projr (fst (worklist ''tok'' [] [] [] [] 100 0 demo_state))))"
proof -
  have run: "worklist ''tok'' [] [] [] [] 100 0 demo_state =
      (Inr (projr (fst (worklist ''tok'' [] [] [] [] 100 0 demo_state))), demo_state)"
    by (rule demo_worklist_run) (simp_all add: int64_def)
  have ids: "map (\<lambda>d. row_text d ''study_id'')
     (wl_studies (projr (fst (worklist ''tok'' [] [] [] [] 100 0 demo_state))))
     = [''s3'', ''s2'', ''s4'', ''s1'']"
    by (simp add: demo_defs worklist_def verify_token_def limit_offset_def int64_def
        study_join_def worklist_where_def worklist_order_def priority_case_def
        worklist_row_def row_text_def)
  from worklist_sorted [OF run] ids show ?thesis by simp
qed

text \<open>
  C3. The \<open>total\<close> of a worklist response counts the rows of the page it returns: of
  the \<open>n\<close> studies that pass the filters, the ones left after the offset, and no more
  than the limit when there is one. It is not \<open>n\<close>.
\<close>

theorem worklist_total_is_page_length:
  assumes "worklist token modality status priority search limit offset st = (Inr r, st')"
  shows "wl_total r = length (wl_studies r) \<and>
         wl_total r =
           (let n = length (filter (worklist_where modality status priority search)
                              (study_join (DB st)))
            in if limit < 0 then n - nat offset else min (nat limit) (n - nat offset))"
proof -
  let ?xs = "order_by worklist_order
               (filter (worklist_where modality status priority search) (study_join (DB st)))"
  from assms obtain page where page: "limit_offset limit offset ?xs = Inr page"
    and r: "r = \<lparr>wl_studies = map worklist_row page, wl_total = length page\<rparr>"
    by (rule worklist_Inr)
  from page have "length page =
      (if limit < 0 then length ?xs - nat offset else min (nat limit) (length ?xs - nat offset))"
    by (auto simp: limit_offset_def Let_def split: if_splits)
  then show ?thesis
    by (simp add: r length_order_by Let_def)
qed

theorem worklist_total_is_page_length_witness:
  "length (filter (worklist_where [] [] [] []) (study_join (DB demo_state))) = 4 \<and>
   wl_total (projr (fst (worklist ''tok'' [] [] [] [] 2 1 demo_state))) = 2 \<and>
   length (wl_studies (projr (fst (worklist ''tok'' [] [] [] [] 2 1 demo_state)))) = 2"
proof -
  have run: "worklist ''tok'' [] [] [] [] 2 1 demo_state =
      (Inr (projr (fst (worklist ''tok'' [] [] [] [] 2 1 demo_state))), demo_state)"
    by (rule demo_worklist_run) (simp_all add: int64_def)
  have n: "length (filter (worklist_where [] [] [] []) (study_join (DB demo_state))) = 4"
    by (simp add: demo_defs study_join_def worklist_where_def)
  from worklist_total_is_page_length [OF run] n show ?thesis
    by (simp add: Let_def)
qed

subsection \<open>The session store\<close>

text \<open>
  C9. Logout succeeds and removes the token's entry from the session store, touching
  nothing else; a second logout with the same token succeeds again and leaves the state
  the first one left.
\<close>

theorem logout_idempotent:
  "fst (logout token st) = Inr Logged_out \<and>
   SESSIONS (snd (logout token st)) = (SESSIONS st)(token := None) \<and>
   DB (snd (logout token st)) = DB st \<and>
   logout token (snd (logout token st)) = (Inr Logged_out, snd (logout token st))"
  by (simp add: logout_def)

subsection \<open>Unknown tokens\<close>

text \<open>
  C2. With a token the session store does not hold, each of the fourteen handlers under
  \<open>/api/\<close> answers Unauthorised and returns the state it was given: the worklist,
  patient and study look-ups, creating, updating and listing reports, generation, export,
  import, statistics, and the four AI operations.
\<close>

theorem unknown_token_unauthorised:
  assumes "SESSIONS st token = None"
  shows "worklist token modality status priority search limit offset st = (Inl Unauthorised, st) \<and>
         get_patient patient_id token st = (Inl Unauthorised, st) \<and>
         get_study study_id token st = (Inl Unauthorised, st) \<and>
         create_report e data token st = (Inl Unauthorised, st) \<and>
         update_report e report_id data token st = (Inl Unauthorised, st) \<and>
         get_reports token st = (Inl Unauthorised, st) \<and>
         generate_data e counts token st = (Inl Unauthorised, st) \<and>
         export_data token fmt st = (Inl Unauthorised, st) \<and>
         import_data e token upl st = (Inl Unauthorised, st) \<and>
         get_stats token st = (Inl Unauthorised, st) \<and>
         aria_query e question token st = (Inl Unauthorised, st) \<and>
         aria_assist_report e question token st = (Inl Unauthorised, st) \<and>
         aria_transcribe e audio token st = (Inl Unauthorised, st) \<and>
         aria_speak e question token st = (Inl Unauthorised, st)"
proof -
  have v: "verify_token st token = Inl Unauthorised"
    using assms by (simp add: verify_token_def)
  show ?thesis
    by (simp add: v worklist_def get_patient_def get_study_def create_report_def
        update_report_def get_reports_def generate_data_def export_data_def import_data_def
        get_stats_def aria_query_def aria_assist_report_def aria_transcribe_def
        aria_speak_def)
qed

theorem unknown_token_unauthorised_witness:
  "SESSIONS demo_state ''stale'' = None \<and>
   worklist ''stale'' [] [] [] [] 100 0 demo_state = (Inl Unauthorised, demo_state) \<and>
   get_patient ''p1'' ''stale'' demo_state = (Inl Unauthorised, demo_state) \<and>
   get_study ''s1'' ''stale'' demo_state = (Inl Unauthorised, demo_state) \<and>
   create_report demo_env [''study_id'' \<mapsto> JStr ''s1''] ''stale'' demo_state
     = (Inl Unauthorised, demo_state) \<and>
   update_report demo_env ''r1'' [''study_id'' \<mapsto> JStr ''s1''] ''stale'' demo_state
     = (Inl Unauthorised, demo_state) \<and>
   get_reports ''stale'' demo_state = (Inl Unauthorised, demo_state) \<and>
   generate_data demo_env [''patients'' \<mapsto> 2] ''stale'' demo_state
     = (Inl Unauthorised, demo_state) \<and>
   export_data ''stale'' ''json'' demo_state = (Inl Unauthorised, demo_state) \<and>
   import_data demo_env ''stale'' demo_batch demo_state = (Inl Unauthorised, demo_state) \<and>
   get_stats ''stale'' demo_state = (Inl Unauthorised, demo_state) \<and>
   aria_query demo_env [''query'' \<mapsto> ''Which study is next?''] ''stale'' demo_state
     = (Inl Unauthorised, demo_state) \<and>
   aria_assist_report demo_env [''query'' \<mapsto> ''Which study is next?''] ''stale'' demo_state
     = (Inl Unauthorised, demo_state) \<and>
   aria_transcribe demo_env ''RIFF'' ''stale'' demo_state = (Inl Unauthorised, demo_state) \<and>
   aria_speak demo_env [''query'' \<mapsto> ''Which study is next?''] ''stale'' demo_state
     = (Inl Unauthorised, demo_state)"
proof -
  have stale: "SESSIONS demo_state ''stale'' = None"
    by (simp add: demo_state_def)
  from stale
    unknown_token_unauthorised [OF stale, where modality = "[]" and status = "[]"
      and priority = "[]" and search = "[]" and limit = 100 and offset = 0
      and patient_id = "''p1''" and study_id = "''s1''" and e = demo_env
      and data = "[''study_id'' \<mapsto> JStr ''s1'']" and report_id = "''r1''"
      and question = "[''query'' \<mapsto> ''Which study is next?'']"
      and counts = "[''patients'' \<mapsto> 2]" and fmt = "''json''"
      and upl = demo_batch and audio = "''RIFF''"]
  show ?thesis by blast
qed

subsection \<open>Binding parameters\<close>

lemma bind_text_bindable: "bindable v \<Longrightarrow> \<exists>t. bind_text e v = Inr t"
  by (cases v) (auto simp: bindable_def bind_text_def)

lemma bind_text_default:
  assumes "supplied_bindable data key"
  shows "\<exists>t. bind_text e (dict_get data key (JStr d)) = Inr t \<and> (data key = None \<longrightarrow> t = Some d)"
proof (cases "data key")
  case None
  then show ?thesis by (simp add: dict_get_def bind_text_def)
next
  case (Some v)
  with assms have "bindable v" by (simp add: supplied_bindable_def)
  from bind_text_bindable [OF this] Some show ?thesis
    by (simp add: dict_get_def)
qed

lemma bind_report_fields_bindable:
  assumes "bindable_report_body data"
  shows "\<exists>fs. bind_report_fields e data = Inr fs \<and>
           (data ''indication'' = None \<longrightarrow> f_indication fs = Some '''') \<and>
           (data ''technique'' = None \<longrightarrow> f_technique fs = Some '''') \<and>
           (data ''findings'' = None \<longrightarrow> f_findings fs = Some '''') \<and>
           (data ''impression'' = None \<longrightarrow> f_impression fs = Some '''') \<and>
           (data ''sign_status'' = None \<longrightarrow> f_sign_status fs = Some ''Draft'')"
proof -
  from assms have b: "supplied_bindable data ''indication''" "supplied_bindable data ''technique''"
    "supplied_bindable data ''findings''" "supplied_bindable data ''impression''"
    "supplied_bindable data ''sign_status''"
    by (simp_all add: bindable_report_body_def)
  from bind_text_default [OF b(1), of e "''''"] obtain t1 where
    1: "bind_text e (dict_get data ''indication'' (JStr '''')) = Inr t1"
       "data ''indication'' = None \<longrightarrow> t1 = Some ''''" by (elim exE conjE)
  from bind_text_default [OF b(2), of e "''''"] obtain t2 where
    2: "bind_text e (dict_get data ''technique'' (JStr '''')) = Inr t2"
       "data ''technique'' = None \<longrightarrow> t2 = Some ''''" by (elim exE conjE)
  from bind_text_default [OF b(3), of e "''''"] obtain t3 where
    3: "bind_text e (dict_get data ''findings'' (JStr '''')) = Inr t3"
       "data ''findings'' = None \<longrightarrow> t3 = Some ''''" by (elim exE conjE)
  from bind_text_default [OF b(4), of e "''''"] obtain t4 where
    4: "bind_text e (dict_get data ''impression'' (JStr '''')) = Inr t4"
       "data ''impression'' = None \<longrightarrow> t4 = Some ''''" by (elim exE conjE)
  from bind_text_default [OF b(5), of e "''Draft''"] obtain t5 where
    5: "bind_text e (dict_get data ''sign_status'' (JStr ''Draft'')) = Inr t5"
       "data ''sign_status'' = None \<longrightarrow> t5 = Some ''Draft''" by (elim exE conjE)
  show ?thesis
    using 1 2 3 4 5 by (simp add: bind_report_fields_def on_success_def)
qed

subsection \<open>Updating reports\<close>

text \<open>
  C5, as the code has it. An update of a report id that no report carries, by a caller
  holding a session and with a body whose narrative values can be bound, returns the
  same answer as any update and leaves the whole state, every report row with it, as it
  was. (A value that cannot be bound, a list for one, raises before the statement runs.)
\<close>

theorem update_report_missing_id:
  assumes "SESSIONS st token = Some username"
    and "report_id \<notin> set (map r_report_id (reports (DB st)))"
    and "bindable_report_body data"
  shows "update_report e report_id data token st = (Inr Report_updated, st)"
proof -
  from bind_report_fields_bindable [OF assms(3), of e] obtain fs where
    fs: "bind_report_fields e data = Inr fs"
    by blast
  have "map (update_row (strftime e (clock e)) fs report_id) (reports (DB st)) = reports (DB st)"
    using assms(2) by (intro map_idI) (auto simp: update_row_def)
  with assms(1) fs show ?thesis
    by (simp add: update_report_def verify_token_def)
qed

theorem update_report_missing_id_witness:
  "SESSIONS demo_state ''tok'' = Some ''david'' \<and>
   map r_report_id (reports (DB demo_state)) = [''r1''] \<and>
   bindable_report_body [''findings'' \<mapsto> JStr ''Clear.''] \<and>
   update_report demo_env ''r2'' [''findings'' \<mapsto> JStr ''Clear.''] ''tok'' demo_state
     = (Inr Report_updated, demo_state)"
proof -
  have tok: "SESSIONS demo_state ''tok'' = Some ''david''"
    by (simp add: demo_state_def)
  have ids: "map r_report_id (reports (DB demo_state)) = [''r1'']"
    by (simp add: demo_defs)
  have missing: "''r2'' \<notin> set (map r_report_id (reports (DB demo_state)))"
    by (simp add: ids)
  have body: "bindable_report_body [''findings'' \<mapsto> JStr ''Clear.'']"
    by (simp add: bindable_report_body_def supplied_bindable_def bindable_def)
  from update_report_missing_id [OF tok missing body] tok ids body show ?thesis by simp
qed

theorem update_report_missing_id_counterexample:
  "SESSIONS demo_state ''tok'' = Some ''david'' \<and>
   ''r2'' \<notin> set (map r_report_id (reports (DB demo_state))) \<and>
   update_report demo_env ''r2'' [''findings'' \<mapsto> JList [JStr ''Clear.'']] ''tok'' demo_state
     = (Inl (Unhandled ProgrammingError), demo_state)"
  by (simp add: demo_defs update_report_def verify_token_def bind_report_fields_def
      on_success_def bind_text_def dict_get_def)

text \<open>
  C10, as the code has it. An update of an existing report, by a caller holding a session
  and with a body whose narrative values can be bound, rewrites the five fields of every
  row with that id from the body alone: a narrative field the body omits becomes the empty
  text and an omitted sign_status becomes Draft, whatever the row held. The rows keep
  their places and their ids.
\<close>

theorem update_report_overwrites_omitted:
  assumes "SESSIONS st token = Some username"
    and "i < length (reports (DB st))"
    and "r_report_id (reports (DB st) ! i) = report_id"
    and "bindable_report_body data"
  shows "fst (update_report e report_id data token st) = Inr Report_updated \<and>
         length (reports (DB (snd (update_report e report_id data token st))))
           = length (reports (DB st)) \<and>
         r_report_id (reports (DB (snd (update_report e report_id data token st))) ! i)
           = report_id \<and>
         (data ''indication'' = None \<longrightarrow>
            r_indication (reports (DB (snd (update_report e report_id data token st))) ! i)
              = Some '''') \<and>
         (data ''technique'' = None \<longrightarrow>
            r_technique (reports (DB (snd (update_report e report_id data token st))) ! i)
              = Some '''') \<and>
         (data ''findings'' = None \<longrightarrow>
            r_findings (reports (DB (snd (update_report e report_id data token st))) ! i)
              = Some '''') \<and>
         (data ''impression'' = None \<longrightarrow>
            r_impression (reports (DB (snd (update_report e report_id data token st))) ! i)
              = Some '''') \<and>
         (data ''sign_status'' = None \<longrightarrow>
            r_sign_status (reports (DB (snd (update_report e report_id data token st))) ! i)
              = Some ''Draft'')"
proof -
  from bind_report_fields_bindable [OF assms(4), of e] obtain fs where
    fs: "bind_report_fields e data = Inr fs"
      "data ''indication'' = None \<longrightarrow> f_indication fs = Some ''''"
      "data ''technique'' = None \<longrightarrow> f_technique fs = Some ''''"
      "data ''findings'' = None \<longrightarrow> f_findings fs = Some ''''"
      "data ''impression'' = None \<longrightarrow> f_impression fs = Some ''''"
      "data ''sign_status'' = None \<longrightarrow> f_sign_status fs = Some ''Draft''"
    by (elim exE conjE)
  let ?now = "strftime e (clock e)"
  have run: "update_report e report_id data token st =
      (Inr Report_updated,
       st\<lparr>DB := (DB st)\<lparr>reports := map (update_row ?now fs report_id) (reports (DB st))\<rparr>\<rparr>)"
    using assms(1) fs(1) by (simp add: update_report_def verify_token_def)
  have row: "reports (DB (snd (update_report e report_id data token st))) ! i =
      update_row ?now fs report_id (reports (DB st) ! i)"
    using assms(2) by (simp add: run)
  have new: "update_row ?now fs report_id (reports (DB st) ! i) =
      (reports (DB st) ! i)\<lparr>r_indication := f_indication fs, r_technique := f_technique fs,
        r_findings := f_findings fs, r_impression := f_impression fs,
        r_sign_status := f_sign_status fs, r_updated_at := ?now\<rparr>"
    using assms(3) by (simp add: update_row_def)
  have len: "length (reports (DB (snd (update_report e report_id data token st))))
               = length (reports (DB st))"
    by (simp add: run)
  show ?thesis
    unfolding row new using fs(2-6) assms(3) len by (simp add: run)
qed

theorem update_report_overwrites_omitted_witness:
  "r_sign_status (reports (DB demo_state) ! 0) = Some ''Final'' \<and>
   r_impression (reports (DB demo_state) ! 0) = Some ''Normal.'' \<and>
   r_sign_status
     (reports (DB (snd (update_report demo_env ''r1'' [''findings'' \<mapsto> JStr ''Clear.'']
        ''tok'' demo_state))) ! 0) = Some ''Draft'' \<and>
   r_impression
     (reports (DB (snd (update_report demo_env ''r1'' [''findings'' \<mapsto> JStr ''Clear.'']
        ''tok'' demo_state))) ! 0) = Some ''''"
proof -
  have tok: "SESSIONS demo_state ''tok'' = Some ''david''"
    by (simp add: demo_state_def)
  have len: "0 < length (reports (DB demo_state))"
    by (simp add: demo_defs)
  have rid: "r_report_id (reports (DB demo_state) ! 0) = ''r1''"
    by (simp add: demo_defs)
  have body: "bindable_report_body [''findings'' \<mapsto> JStr ''Clear.'']"
    by (simp add: bindable_report_body_def supplied_bindable_def bindable_def)
  have old: "r_sign_status (reports (DB demo_state) ! 0) = Some ''Final'' \<and>
             r_impression (reports (DB demo_state) ! 0) = Some ''Normal.''"
    by (simp add: demo_defs)
  from update_report_overwrites_omitted [OF tok len rid body, of demo_env] old
  show ?thesis by simp
qed

theorem update_report_overwrites_omitted_counterexample:
  "SESSIONS demo_state ''tok'' = Some ''david'' \<and>
   r_report_id (reports (DB demo_state) ! 0) = ''r1'' \<and>
   fst (update_report demo_env ''r1'' [''findings'' \<mapsto> JList [JStr ''Clear.'']] ''tok''
          demo_state) = Inl (Unhandled ProgrammingError) \<and>
   r_impression
     (reports (DB (snd (update_report demo_env ''r1'' [''findings'' \<mapsto> JList [JStr ''Clear.'']]
        ''tok'' demo_state))) ! 0) = Some ''Normal.'' \<and>
   r_sign_status
     (reports (DB (snd (update_report demo_env ''r1'' [''findings'' \<mapsto> JList [JStr ''Clear.'']]
        ''tok'' demo_state))) ! 0) = Some ''Final''"
  by (simp add: demo_defs update_report_def verify_token_def bind_report_fields_def
      on_success_def bind_text_def dict_get_def)

subsection \<open>Import\<close>

lemma bind_text_value: "bindable v \<Longrightarrow> v \<noteq> JNull \<Longrightarrow> \<exists>t. bind_text e v = Inr (Some t)"
  by (cases v) (auto simp: bindable_def bind_text_def)

lemma import_patient_shaped:
  assumes "patient_shaped (JDict kv)"
  shows "\<exists>p. import_patient e k (map_of kv) = Inr p \<and> p_patient_id p = uuid4 e k \<and>
             p_mrn p = import_mrn e k (JDict kv) \<and> p_mrn p \<noteq> None"
proof -
  let ?d = "JStr (''KCH'' @ str_int (randint 1000000 9999999 (rand e (k + 1))))"
  from assms have b: "supplied_bindable (map_of kv) ''mrn''" "map_of kv ''mrn'' \<noteq> Some JNull"
    "supplied_bindable (map_of kv) ''first_name''" "supplied_bindable (map_of kv) ''last_name''"
    "supplied_bindable (map_of kv) ''dob''" "supplied_bindable (map_of kv) ''sex''"
    by (simp_all add: patient_shaped_def)
  have "bindable (dict_get (map_of kv) ''mrn'' ?d)" "dict_get (map_of kv) ''mrn'' ?d \<noteq> JNull"
    using b(1,2) by (auto simp: dict_get_def supplied_bindable_def bindable_def split: option.splits)
  from bind_text_value [OF this, of e] obtain m where
    m: "bind_text e (dict_get (map_of kv) ''mrn'' ?d) = Inr (Some m)" by (elim exE)
  from bind_text_default [OF b(3), of e "''Unknown''"] obtain t1 where
    1: "bind_text e (dict_get (map_of kv) ''first_name'' (JStr ''Unknown'')) = Inr t1"
    by (elim exE conjE)
  from bind_text_default [OF b(4), of e "''Unknown''"] obtain t2 where
    2: "bind_text e (dict_get (map_of kv) ''last_name'' (JStr ''Unknown'')) = Inr t2"
    by (elim exE conjE)
  from bind_text_default [OF b(5), of e "''1970-01-01''"] obtain t3 where
    3: "bind_text e (dict_get (map_of kv) ''dob'' (JStr ''1970-01-01'')) = Inr t3"
    by (elim exE conjE)
  from bind_text_default [OF b(6), of e "''U''"] obtain t4 where
    4: "bind_text e (dict_get (map_of kv) ''sex'' (JStr ''U'')) = Inr t4"
    by (elim exE conjE)
  show ?thesis
    using m 1 2 3 4 by (simp add: import_patient_def import_mrn_def on_success_def Let_def)
qed

lemma import_rows_effect:
  assumes "well_formed_batch rows"
    and "distinct (import_ids e k (length rows))"
    and "set (import_ids e k (length rows)) \<inter> set (map p_patient_id (patients db)) = {}"
  shows "\<exists>new. import_rows e k rows db n = Inr (db\<lparr>patients := patients db @ new\<rparr>, n + length new) \<and>
           set (map p_mrn new) = set (import_mrns e k rows) - set (map p_mrn (patients db)) \<and>
           distinct (map p_mrn new) \<and> None \<notin> set (map p_mrn new) \<and>
           set (map p_patient_id new) \<subseteq> set (import_ids e k (length rows))"
  using assms
proof (induction rows arbitrary: k db n)
  case Nil
  then show ?case by simp
next
  case (Cons row rest)
  from Cons.prems(1) have shaped: "patient_shaped row" and wf: "well_formed_batch rest"
    by (simp_all add: well_formed_batch_def)
  from shaped obtain kv where row: "row = JDict kv"
    by (cases row) (simp_all add: patient_shaped_def)
  from import_patient_shaped [OF shaped [unfolded row], of e k] obtain p where
    p: "import_patient e k (map_of kv) = Inr p" and pid: "p_patient_id p = uuid4 e k"
    and mrn: "p_mrn p = import_mrn e k row" and some: "p_mrn p \<noteq> None"
    unfolding row by (elim exE conjE)
  have step: "import_rows e k (row # rest) db n =
      (case insert_patient db p of
         Inl x \<Rightarrow> import_rows e (k + 2) rest db n
       | Inr db' \<Rightarrow> import_rows e (k + 2) rest db' (n + 1))"
    by (simp add: row p on_success_def)
  from Cons.prems have fresh: "uuid4 e k \<notin> set (map p_patient_id (patients db))"
    and d: "distinct (import_ids e (k + 2) (length rest))"
    and notin: "uuid4 e k \<notin> set (import_ids e (k + 2) (length rest))"
    and disj: "set (import_ids e (k + 2) (length rest)) \<inter> set (map p_patient_id (patients db)) = {}"
    by auto
  show ?case
  proof (cases "p_mrn p \<in> set (map p_mrn (patients db))")
    case True
    with some have ins: "insert_patient db p = Inl IntegrityError"
      by (simp add: insert_patient_def)
    from Cons.IH [OF wf d disj, of n] obtain new where
      new: "import_rows e (k + 2) rest db n = Inr (db\<lparr>patients := patients db @ new\<rparr>, n + length new)"
        "set (map p_mrn new) = set (import_mrns e (k + 2) rest) - set (map p_mrn (patients db))"
        "distinct (map p_mrn new)" "None \<notin> set (map p_mrn new)"
        "set (map p_patient_id new) \<subseteq> set (import_ids e (k + 2) (length rest))"
      by (elim exE conjE)
    from True new show ?thesis
      by (intro exI [of _ new]) (auto simp: step ins mrn simp del: import_rows.simps)
  next
    case False
    let ?db1 = "db\<lparr>patients := patients db @ [p]\<rparr>"
    from False fresh have ins: "insert_patient db p = Inr ?db1"
      by (simp add: insert_patient_def pid)
    have disj1: "set (import_ids e (k + 2) (length rest)) \<inter> set (map p_patient_id (patients ?db1)) = {}"
      using disj notin by (auto simp: pid)
    from Cons.IH [OF wf d disj1, of "n + 1"] obtain new where
      new: "import_rows e (k + 2) rest ?db1 (n + 1) =
              Inr (?db1\<lparr>patients := patients ?db1 @ new\<rparr>, n + 1 + length new)"
        "set (map p_mrn new) = set (import_mrns e (k + 2) rest) - set (map p_mrn (patients ?db1))"
        "distinct (map p_mrn new)" "None \<notin> set (map p_mrn new)"
        "set (map p_patient_id new) \<subseteq> set (import_ids e (k + 2) (length rest))"
      by (elim exE conjE)
    from False new some show ?thesis
      by (intro exI [of _ "p # new"]) (auto simp: step ins mrn pid simp del: import_rows.simps)
  qed
qed

lemma set_text_mrns: "set (text_mrns db) = {m. Some m \<in> set (map p_mrn (patients db))}"
  by (auto simp: text_mrns_def split: option.splits)

lemma text_mrns_append:
  "text_mrns (db\<lparr>patients := patients db @ new\<rparr>)
     = text_mrns db @ [m. Some m \<leftarrow> map p_mrn new]"
  by (simp add: text_mrns_def)

lemma distinct_texts: "distinct xs \<Longrightarrow> distinct [m. Some m \<leftarrow> xs]"
  by (induction xs) (auto split: option.splits)

text \<open>
  C7. A well-formed batch imported by a caller holding a session, the ids \<open>uuid4\<close>
  issues being new: the import answers with a count and never aborts; it appends patients
  and changes nothing else; the MRNs it inserts are exactly the MRNs of the batch that the
  table did not hold, each once, so that a row repeating an MRN of the table or of an
  earlier row is skipped while the rows after it are still processed; the MRNs of the
  table stay distinct; and the count is the number of rows inserted.
\<close>

theorem import_skips_duplicate_mrns:
  assumes "SESSIONS st token = Some username"
    and "parsed upl = Some (JList rows)"
    and "well_formed_batch rows"
    and "distinct (text_mrns (DB st))"
    and "distinct (import_ids e 0 (length rows))"
    and "set (import_ids e 0 (length rows)) \<inter> set (map p_patient_id (patients (DB st))) = {}"
  shows "\<exists>new. import_data e token upl st =
                 (Inr (length new), st\<lparr>DB := (DB st)\<lparr>patients := patients (DB st) @ new\<rparr>\<rparr>) \<and>
               set (map p_mrn new) =
                 set (import_mrns e 0 rows) - set (map p_mrn (patients (DB st))) \<and>
               length new =
                 card (set (import_mrns e 0 rows) - set (map p_mrn (patients (DB st)))) \<and>
               distinct (text_mrns ((DB st)\<lparr>patients := patients (DB st) @ new\<rparr>))"
proof -
  from import_rows_effect [OF assms(3,5,6), of 0] obtain new where
    new: "import_rows e 0 rows (DB st) 0
            = Inr ((DB st)\<lparr>patients := patients (DB st) @ new\<rparr>, length new)"
      "set (map p_mrn new) = set (import_mrns e 0 rows) - set (map p_mrn (patients (DB st)))"
      "distinct (map p_mrn new)"
    by auto
  have len: "length new = card (set (map p_mrn new))"
    using distinct_card [OF new(3)] by simp
  have "set [m. Some m \<leftarrow> map p_mrn new] \<inter> set (text_mrns (DB st)) = {}"
    using new(2) by (auto simp: set_text_mrns)
  with assms(4) distinct_texts [OF new(3)]
  have d: "distinct (text_mrns ((DB st)\<lparr>patients := patients (DB st) @ new\<rparr>))"
    unfolding text_mrns_append by auto
  have run: "import_data e token upl st =
      (Inr (length new), st\<lparr>DB := (DB st)\<lparr>patients := patients (DB st) @ new\<rparr>\<rparr>)"
    using assms(1,2) new(1)
    by (simp add: import_data_def verify_token_def iterate_def on_success_def)
  from run new(2) len d show ?thesis
    by (intro exI [of _ new]) simp
qed

theorem import_skips_duplicate_mrns_witness:
  "well_formed_batch demo_rows \<and>
   text_mrns (DB demo_state) = [''KCH1000001''] \<and>
   import_mrns demo_env 0 demo_rows
     = [Some ''KCH1000001'', Some ''KCH2000002'', Some ''KCH2000002'', Some ''KCH1000052''] \<and>
   fst (import_data demo_env ''tok'' demo_batch demo_state) = Inr 2 \<and>
   map p_mrn (patients (DB (snd (import_data demo_env ''tok'' demo_batch demo_state))))
     = [Some ''KCH1000001'', Some ''KCH2000002'', Some ''KCH1000052'']"
proof -
  have tok: "SESSIONS demo_state ''tok'' = Some ''david''"
    by (simp add: demo_state_def)
  have rs: "parsed demo_batch = Some (JList demo_rows)"
    by (simp add: demo_batch_def)
  have wf: "well_formed_batch demo_rows"
    by (simp add: well_formed_batch_def demo_rows_def patient_shaped_def supplied_bindable_def
        bindable_def)
  have old: "map p_mrn (patients (DB demo_state)) = [Some ''KCH1000001'']"
    by (simp add: demo_defs)
  have texts: "text_mrns (DB demo_state) = [''KCH1000001'']"
    by (simp add: text_mrns_def old)
  have d: "distinct (text_mrns (DB demo_state))"
    by (simp add: texts)
  have ids: "import_ids demo_env 0 (length demo_rows)
               = [''uuid-0'', ''uuid-2'', ''uuid-4'', ''uuid-6'']"
    by (simp add: demo_rows_def demo_env_def str_int_def digits.simps)
  have i1: "distinct (import_ids demo_env 0 (length demo_rows))"
    by (simp add: ids)
  have i2: "set (import_ids demo_env 0 (length demo_rows))
              \<inter> set (map p_patient_id (patients (DB demo_state))) = {}"
    by (simp add: ids) (simp add: demo_defs)
  have mrns: "import_mrns demo_env 0 demo_rows
     = [Some ''KCH1000001'', Some ''KCH2000002'', Some ''KCH2000002'', Some ''KCH1000052'']"
    by (simp add: demo_rows_def demo_env_def import_mrn_def dict_get_def bind_text_def
        randint_def str_int_def digits.simps)
  from import_skips_duplicate_mrns [OF tok rs wf d i1 i2] obtain new where
    new: "import_data demo_env ''tok'' demo_batch demo_state =
            (Inr (length new),
             demo_state\<lparr>DB := (DB demo_state)\<lparr>patients := patients (DB demo_state) @ new\<rparr>\<rparr>)"
      "set (map p_mrn new) = set (import_mrns demo_env 0 demo_rows)
                          - set (map p_mrn (patients (DB demo_state)))"
      "length new = card (set (import_mrns demo_env 0 demo_rows)
                          - set (map p_mrn (patients (DB demo_state))))"
    by (elim exE conjE)
  have run: "map p_mrn (patients (DB (snd (import_data demo_env ''tok'' demo_batch demo_state))))
     = [Some ''KCH1000001'', Some ''KCH2000002'', Some ''KCH1000052'']"
    by (simp add: import_data_def verify_token_def demo_defs demo_batch_def demo_rows_def
        demo_env_def iterate_def import_patient_def on_success_def insert_patient_def
        dict_get_def bind_text_def randint_def str_int_def digits.simps Let_def)
  have "length new = 2"
    by (simp add: new(3) mrns old)
  with new(1) wf texts mrns run show ?thesis by simp
qed

subsection \<open>Export and import\<close>

lemma export_json_shaped:
  "p_mrn p \<noteq> None \<Longrightarrow>
   patient_shaped (JDict (map (\<lambda>(k, v). (k, json_of v)) (export_row (s, p, od))))"
  by (simp add: patient_shaped_def export_row_def supplied_bindable_def bindable_def
      json_of_def text_value_def split: option.splits)

lemma export_json_mrn:
  "import_mrn e k (JDict (map (\<lambda>(k, v). (k, json_of v)) (export_row (s, p, od)))) = p_mrn p"
  by (cases "p_mrn p")
     (simp_all add: import_mrn_def export_row_def dict_get_def json_of_def text_value_def
        bind_text_def)

lemma import_mrns_export:
  "import_mrns e k (map (\<lambda>d. JDict (map (\<lambda>(k, v). (k, json_of v)) d)) (map export_row js))
     = map (\<lambda>(s, p, od). p_mrn p) js"
proof (induction js arbitrary: k)
  case Nil
  then show ?case by simp
next
  case (Cons j js)
  obtain s p od where j: "j = (s, p, od)" by (cases j)
  from Cons.IH [of "k + 2"] show ?case
    by (simp add: j export_json_mrn)
qed

lemma import_mrns_export_rows:
  "set (import_mrns e k (map (\<lambda>d. JDict (map (\<lambda>(k, v). (k, json_of v)) d)) (export_rows db)))
     = exported_mrns db"
  unfolding export_rows_def import_mrns_export exported_mrns_def
  by (simp add: set_order_by)

lemma well_formed_export:
  assumes "None \<notin> exported_mrns db"
  shows "well_formed_batch (map (\<lambda>d. JDict (map (\<lambda>(k, v). (k, json_of v)) d)) (export_rows db))"
proof -
  have "patient_shaped (JDict (map (\<lambda>(k, v). (k, json_of v)) (export_row j)))"
    if "j \<in> set (study_join db)" for j
  proof -
    obtain s p od where j: "j = (s, p, od)" by (cases j)
    from that assms have "p_mrn p \<noteq> None"
      by (force simp: exported_mrns_def j)
    then show ?thesis unfolding j by (rule export_json_shaped)
  qed
  then show ?thesis
    by (simp add: well_formed_batch_def export_rows_def list_all_iff set_order_by)
qed

lemma exported_mrns_present: "exported_mrns db \<subseteq> set (map p_mrn (patients db))"
  by (auto simp: exported_mrns_def study_join_def)

lemma import_rows_present:
  assumes "well_formed_batch rows"
    and "set (import_mrns e k rows) \<subseteq> set (map p_mrn (patients db))"
  shows "import_rows e k rows db n = Inr (db, n)"
  using assms
proof (induction rows arbitrary: k)
  case Nil
  then show ?case by simp
next
  case (Cons row rest)
  from Cons.prems(1) have shaped: "patient_shaped row" and wf: "well_formed_batch rest"
    by (simp_all add: well_formed_batch_def)
  from shaped obtain kv where row: "row = JDict kv"
    by (cases row) (simp_all add: patient_shaped_def)
  from import_patient_shaped [OF shaped [unfolded row], of e k] obtain p where
    p: "import_patient e k (map_of kv) = Inr p"
    and mrn: "p_mrn p = import_mrn e k row" and some: "p_mrn p \<noteq> None"
    unfolding row by (elim exE conjE)
  from Cons.prems(2) have here: "import_mrn e k row \<in> set (map p_mrn (patients db))"
    and rest: "set (import_mrns e (k + 2) rest) \<subseteq> set (map p_mrn (patients db))"
    by simp_all
  from here some have ins: "insert_patient db p = Inl IntegrityError"
    by (simp add: insert_patient_def mrn del: set_map)
  have "import_rows e k (row # rest) db n = import_rows e (k + 2) rest db n"
    by (simp add: row p ins on_success_def)
  with Cons.IH [OF wf rest] show ?case by simp
qed

text \<open>
  C6, as the code has it. The JSON export lists studies, one row for each study joined
  to its patient and its order. Taken over a store whose exported patients all carry an
  MRN and uploaded to a store that holds no patient, the ids \<open>uuid4\<close> issues being
  distinct, it inserts one patient for each MRN the export mentions, which leaves out the
  patients without such a study. Uploaded to the store it was taken from, it inserts
  nothing and changes nothing.
\<close>

theorem export_import_round_trip:
  assumes "SESSIONS st token = Some username"
    and "SESSIONS st' token' = Some username'"
    and "patients (DB st') = []"
    and "distinct (import_ids e 0 (length (export_rows (DB st))))"
    and "None \<notin> exported_mrns (DB st)"
  shows "export_data token ''json'' st = (Inr (JSONResponse (export_rows (DB st))), st) \<and>
         (\<exists>new. import_data e token' (json_upload name (export_rows (DB st))) st' =
                  (Inr (card (exported_mrns (DB st))), st'\<lparr>DB := (DB st')\<lparr>patients := new\<rparr>\<rparr>) \<and>
                set (map p_mrn new) = exported_mrns (DB st) \<and>
                distinct (map p_mrn new)) \<and>
         import_data e token (json_upload name (export_rows (DB st))) st = (Inr 0, st)"
proof (intro conjI)
  show "export_data token ''json'' st = (Inr (JSONResponse (export_rows (DB st))), st)"
    using assms(1) by (simp add: export_data_def verify_token_def)
next
  let ?rs = "map (\<lambda>d. JDict (map (\<lambda>(k, v). (k, json_of v)) d)) (export_rows (DB st))"
  have wf: "well_formed_batch ?rs"
    using assms(5) by (rule well_formed_export)
  have d: "distinct (import_ids e 0 (length ?rs))"
    using assms(4) by simp
  have fresh: "set (import_ids e 0 (length ?rs)) \<inter> set (map p_patient_id (patients (DB st'))) = {}"
    by (simp add: assms(3))
  from import_rows_effect [OF wf d fresh, of 0] obtain new where
    new: "import_rows e 0 ?rs (DB st') 0 = Inr ((DB st')\<lparr>patients := new\<rparr>, length new)"
      "set (map p_mrn new) = exported_mrns (DB st)"
      "distinct (map p_mrn new)"
    by (auto simp: assms(3) import_mrns_export_rows)
  have "length new = card (exported_mrns (DB st))"
    using distinct_card [OF new(3)] new(2) by simp
  with new assms(2)
  show "\<exists>new. import_data e token' (json_upload name (export_rows (DB st))) st' =
                  (Inr (card (exported_mrns (DB st))), st'\<lparr>DB := (DB st')\<lparr>patients := new\<rparr>\<rparr>) \<and>
                set (map p_mrn new) = exported_mrns (DB st) \<and>
                distinct (map p_mrn new)"
    by (intro exI [of _ new])
       (simp add: import_data_def verify_token_def json_upload_def iterate_def on_success_def)
next
  let ?rs = "map (\<lambda>d. JDict (map (\<lambda>(k, v). (k, json_of v)) d)) (export_rows (DB st))"
  have wf: "well_formed_batch ?rs"
    using assms(5) by (rule well_formed_export)
  have "set (import_mrns e 0 ?rs) \<subseteq> set (map p_mrn (patients (DB st)))"
    using exported_mrns_present [of "DB st"] by (simp only: import_mrns_export_rows)
  with wf have "import_rows e 0 ?rs (DB st) 0 = Inr (DB st, 0)"
    by (rule import_rows_present)
  with assms(1)
  show "import_data e token (json_upload name (export_rows (DB st))) st = (Inr 0, st)"
    by (simp add: import_data_def verify_token_def json_upload_def iterate_def on_success_def)
qed

lemma demo_export_rows2:
  "map (\<lambda>d. (row_text d ''mrn'', row_text d ''scheduled_time'')) (export_rows (DB demo_state2))
     = [(''KCH1000001'', ''2024-01-03 08:00''), (''KCH1000001'', ''2024-01-02 10:00''),
        (''KCH1000001'', ''2024-01-01 09:00''), (''KCH1000001'', ''2024-01-01 07:00'')]"
  by (simp add: demo_state2_def demo_outpatient_def demo_defs export_rows_def study_join_def
      export_row_def row_text_def text_value_def)

lemma demo_import_ids4:
  "import_ids demo_env 0 4 = [''uuid-0'', ''uuid-2'', ''uuid-4'', ''uuid-6'']"
  by (simp add: numeral_eq_Suc demo_env_def str_int_def digits.simps)

theorem export_import_round_trip_witness:
  "exported_mrns (DB demo_state2) = {Some ''KCH1000001''} \<and>
   fst (import_data demo_env ''tok'' (json_upload ''aria'' (export_rows (DB demo_state2)))
          empty_state) = Inr 1 \<and>
   import_data demo_env ''tok'' (json_upload ''aria'' (export_rows (DB demo_state2)))
     demo_state2 = (Inr 0, demo_state2)"
proof -
  have tok: "SESSIONS demo_state2 ''tok'' = Some ''david''"
    by (simp add: demo_state2_def)
  have tok': "SESSIONS empty_state ''tok'' = Some ''david''"
    by (simp add: empty_state_def)
  have none: "patients (DB empty_state) = []"
    by (simp add: empty_state_def)
  have len: "length (export_rows (DB demo_state2)) = 4"
    using arg_cong [OF demo_export_rows2, of length] by simp
  have ids: "distinct (import_ids demo_env 0 (length (export_rows (DB demo_state2))))"
    by (simp add: len demo_import_ids4)
  have mrns: "exported_mrns (DB demo_state2) = {Some ''KCH1000001''}"
    by (simp add: exported_mrns_def demo_state2_def demo_outpatient_def demo_defs
        study_join_def)
  have texts: "None \<notin> exported_mrns (DB demo_state2)"
    by (simp add: mrns)
  note rt = export_import_round_trip [OF tok tok' none ids texts, of "''aria''"]
  from rt obtain new where
    "import_data demo_env ''tok'' (json_upload ''aria'' (export_rows (DB demo_state2)))
       empty_state =
       (Inr (card (exported_mrns (DB demo_state2))),
        empty_state\<lparr>DB := (DB empty_state)\<lparr>patients := new\<rparr>\<rparr>)"
    by (elim exE conjE)
  then have one: "fst (import_data demo_env ''tok''
      (json_upload ''aria'' (export_rows (DB demo_state2))) empty_state) = Inr 1"
    by (simp add: mrns)
  from rt have "import_data demo_env ''tok''
      (json_upload ''aria'' (export_rows (DB demo_state2))) demo_state2 = (Inr 0, demo_state2)"
    by (elim conjE)
  with mrns one show ?thesis by simp
qed

theorem export_import_counterexample:
  "length (patients (DB demo_state2)) = 2 \<and>
   fst (export_data ''tok'' ''json'' demo_state2)
     = Inr (JSONResponse (export_rows (DB demo_state2))) \<and>
   length (export_rows (DB demo_state2)) = 4 \<and>
   fst (import_data demo_env ''tok'' (json_upload ''aria'' (export_rows (DB demo_state2)))
          demo_state2) = Inr 0 \<and>
   fst (import_data demo_env ''tok'' (json_upload ''aria'' (export_rows (DB demo_state2)))
          empty_state) = Inr 1"
  by (simp add: import_data_def export_data_def verify_token_def json_upload_def
      demo_state2_def demo_outpatient_def empty_state_def demo_defs export_rows_def
      study_join_def export_row_def insert_patient_def dict_get_def str_value_def
      demo_env_def Let_def iterate_def on_success_def import_patient_def bind_text_def
      json_of_def text_value_def flag_value_def)

subsection \<open>The generator\<close>

lemma choice_mem: "xs \<noteq> [] \<Longrightarrow> choice xs r \<in> set xs"
  by (simp add: choice_def)

lemma randint_lower: "a \<le> b \<Longrightarrow> a \<le> randint a b r"
  by (simp add: randint_def)

lemma randint_upper: "a \<le> b \<Longrightarrow> randint a b r \<le> b"
proof -
  assume "a \<le> b"
  then have "int r mod (b - a + 1) < b - a + 1"
    by (intro pos_mod_bound) simp
  then show ?thesis by (simp add: randint_def)
qed

lemma generate_series_effect:
  "generate_series e sid sns k db = Inr (k', db') \<Longrightarrow>
   \<exists>xs. db' = db\<lparr>series_rows := series_rows db @ xs\<rparr> \<and> length xs = length sns \<and>
        (\<forall>x \<in> set xs. x_study_id x = sid)"
proof (induction sns arbitrary: k db)
  case Nil
  then show ?case by simp
next
  case (Cons sn sns)
  from Cons.prems obtain db1 x where
    ins: "insert_series db x = Inr db1" and sid: "x_study_id x = sid"
    and rest: "generate_series e sid sns (k + 2) db1 = Inr (k', db')"
    by (auto split: sum.splits)
  from ins have db1: "db1 = db\<lparr>series_rows := series_rows db @ [x]\<rparr>"
    by (simp add: insert_series_def split: if_splits)
  from Cons.IH [OF rest] obtain xs where
    xs: "db' = db1\<lparr>series_rows := series_rows db1 @ xs\<rparr>" "length xs = length sns"
      "\<forall>x \<in> set xs. x_study_id x = sid"
    by blast
  show ?case
    using xs sid by (intro exI [of _ "x # xs"]) (simp add: db1)
qed

lemma findings_pool_plain:
  "map_of REPORT_FINDINGS modality = Some pool \<Longrightarrow>
   pool \<noteq> [] \<and> (\<forall>f \<in> set pool. CHR 0xE2 \<notin> set f)"
  by (auto simp: REPORT_FINDINGS_def split: if_splits)

lemma critical_sentence_marker: "critical_sentence (Some f) \<Longrightarrow> CHR 0xE2 \<in> set f"
proof -
  assume "critical_sentence (Some f)"
  then obtain c where "suffix (critical_prefix @ c) f"
    by (auto simp: critical_sentence_def)
  then have "set (critical_prefix @ c) \<subseteq> set f"
    by (rule set_mono_suffix)
  then show ?thesis
    by (auto simp: critical_prefix_def warning_sign_def)
qed

lemma critical_sentence_appended:
  "critical_sentence (Some (f @ critical_prefix @ choice CRITICAL_FINDINGS r))"
proof -
  have "choice CRITICAL_FINDINGS r \<in> set CRITICAL_FINDINGS"
    by (rule choice_mem) (simp add: CRITICAL_FINDINGS_def)
  moreover have "suffix (critical_prefix @ choice CRITICAL_FINDINGS r)
                   (f @ critical_prefix @ choice CRITICAL_FINDINGS r)"
    by (rule suffixI) simp
  ultimately show ?thesis
    unfolding critical_sentence_def option.case by blast
qed

lemma generate_report_effect:
  assumes "generate_report e tmpl is_critical report_status sid k db = Inr (k', db')"
  shows "\<exists>r. db' = db\<lparr>reports := reports db @ [r]\<rparr> \<and> r_study_id r = Some sid \<and>
             r_sign_status r = Some report_status \<and>
             critical_sentence (r_findings r) = is_critical"
proof -
  obtain modality body_part description priority where
    tmpl: "tmpl = (modality, body_part, description, priority)"
    by (cases tmpl) auto
  from assms obtain xr where xr: "map_of REPORT_FINDINGS ''XR'' = Some xr"
    by (auto simp: generate_report_def tmpl split: option.splits)
  define pool where
    "pool = (case map_of REPORT_FINDINGS modality of None \<Rightarrow> xr | Some p \<Rightarrow> p)"
  have pool: "pool \<noteq> [] \<and> (\<forall>f \<in> set pool. CHR 0xE2 \<notin> set f)"
    using findings_pool_plain [OF xr] findings_pool_plain [of modality]
    by (auto simp: pool_def split: option.splits)
  define findings where "findings =
     (if is_critical
      then choice pool (rand e k) @ critical_prefix @ choice CRITICAL_FINDINGS (rand e (k + 1))
      else choice pool (rand e k))"
  have crit: "critical_sentence (Some findings) = is_critical"
  proof (cases is_critical)
    case True
    then show ?thesis
      by (simp add: findings_def critical_sentence_appended)
  next
    case False
    have "choice pool (rand e k) \<in> set pool"
      using pool by (intro choice_mem) simp
    with pool have "CHR 0xE2 \<notin> set (choice pool (rand e k))"
      by blast
    with False show ?thesis
      using critical_sentence_marker [of findings] by (auto simp: findings_def)
  qed
  from assms obtain r where
    ins: "insert_report db r = Inr db'" and sid: "r_study_id r = Some sid"
    and st: "r_sign_status r = Some report_status" and f: "r_findings r = Some findings"
    by (auto simp: generate_report_def tmpl xr Let_def pool_def findings_def
          split: sum.splits)
  from ins have "db' = db\<lparr>reports := reports db @ [r]\<rparr>"
    by (simp add: insert_report_def split: if_splits)
  with sid st f crit show ?thesis
    by (intro exI [of _ r]) simp
qed

lemma report_status_cases:
  "choice [''Unreported'', ''Unreported'', ''Unreported'', ''Preliminary'', ''Final'', ''Final''] r
     \<in> {''Unreported'', ''Preliminary'', ''Final''}"
proof -
  have "choice [''Unreported'', ''Unreported'', ''Unreported'', ''Preliminary'', ''Final'',
                ''Final''] r
          \<in> set [''Unreported'', ''Unreported'', ''Unreported'', ''Preliminary'', ''Final'',
                  ''Final'']"
    by (rule choice_mem) simp
  then show ?thesis by auto
qed

lemma generate_study_effect:
  assumes "generate_study e critical_pct pid k db = Inr (k', db')"
  shows "\<exists>s xs rs.
           studies db' = studies db @ [s] \<and> series_rows db' = series_rows db @ xs \<and>
           reports db' = reports db @ rs \<and> patients db' = patients db \<and>
           s_study_id s \<notin> set (map s_study_id (studies db)) \<and>
           xs \<noteq> [] \<and> (\<forall>x \<in> set xs. x_study_id x = s_study_id s) \<and>
           (rs \<noteq> [] \<longleftrightarrow> s_report_status s = ''Preliminary'' \<or> s_report_status s = ''Final'') \<and>
           (\<forall>r \<in> set rs. r_study_id r = Some (s_study_id s) \<and>
              critical_sentence (r_findings r) = s_critical_flag s)"
proof -
  obtain modality body_part description priority where
    tmpl: "choice STUDY_TEMPLATES (rand e k) = (modality, body_part, description, priority)"
    by (cases "choice STUDY_TEMPLATES (rand e k)") auto
  define is_critical where
    "is_critical = (random_unit (rand e (k + 1)) < critical_pct / 100)"
  define report_status where "report_status =
     choice [''Unreported'', ''Unreported'', ''Unreported'', ''Preliminary'', ''Final'', ''Final'']
       (rand e (k + 2))"
  define sid where "sid = uuid4 e (k + 4)"
  define n_series where "n_series = randint 1 4 (rand e (k + 14))"
  define od where "od =
     \<lparr>o_order_id = uuid4 e (k + 3), o_patient_id = pid,
      o_ordering_clinician = choice CLINICIANS (rand e (k + 5)),
      o_ordering_location = choice LOCATIONS (rand e (k + 6)),
      o_indication =
        ''Query '' @ (if contains em_dash description
                      then strip (split_last em_dash description)
                      else body_part),
      o_priority = priority, o_status = ''Active'',
      o_created_at = random_time e (randint 0 7 (rand e (k + 7))) (k + 8)\<rparr>"
  define s where "s =
     \<lparr>s_study_id = sid, s_patient_id = pid, s_order_id = uuid4 e (k + 3),
      s_modality = modality, s_description = description, s_body_part = body_part,
      s_scheduled_time = random_time e (randint 0 3 (rand e (k + 9))) (k + 10),
      s_acquisition_time = random_time e (randint 0 2 (rand e (k + 11))) (k + 12),
      s_accession = ''ACC'' @ str_int (randint 10000000 99999999 (rand e (k + 13))),
      s_report_status = report_status, s_critical_flag = is_critical,
      s_pacs_status = ''Available''\<rparr>"
  have s_id: "s_study_id s = sid" and s_st: "s_report_status s = report_status"
    and s_cr: "s_critical_flag s = is_critical"
    by (simp_all add: s_def)
  have unfolded: "generate_study e critical_pct pid k db =
     (case insert_order db od of
        Inl x \<Rightarrow> Inl x
      | Inr db1 \<Rightarrow>
          (case insert_study db1 s of
             Inl x \<Rightarrow> Inl x
           | Inr db2 \<Rightarrow>
               (case generate_series e sid [1..n_series] (k + 15) db2 of
                  Inl x \<Rightarrow> Inl x
                | Inr (k3, db3) \<Rightarrow>
                    if report_status \<in> set [''Preliminary'', ''Final'']
                    then generate_report e (modality, body_part, description, priority)
                           is_critical report_status sid k3 db3
                    else Inr (k3, db3))))"
    unfolding generate_study_def tmpl Let_def prod.case od_def s_def sid_def n_series_def
      is_critical_def report_status_def
    by (rule refl)
  from assms [unfolded unfolded] obtain db1 db2 k3 db3 where
    o: "insert_order db od = Inr db1"
    and s: "insert_study db1 s = Inr db2"
    and ser: "generate_series e sid [1..n_series] (k + 15) db2 = Inr (k3, db3)"
    and rep: "(if report_status \<in> set [''Preliminary'', ''Final'']
               then generate_report e (modality, body_part, description, priority)
                      is_critical report_status sid k3 db3
               else Inr (k3, db3)) = Inr (k', db')"
    by (auto split: sum.splits)
  from o have db1: "db1 = db\<lparr>orders := orders db @ [od]\<rparr>"
    by (simp add: insert_order_def split: if_splits)
  from s have db2: "db2 = db1\<lparr>studies := studies db1 @ [s]\<rparr>"
    and new: "s_study_id s \<notin> set (map s_study_id (studies db1))"
    by (simp_all add: insert_study_def split: if_splits)
  from generate_series_effect [OF ser] obtain xs where
    db3: "db3 = db2\<lparr>series_rows := series_rows db2 @ xs\<rparr>"
    and len: "length xs = length [1..n_series]"
    and xs: "\<forall>x \<in> set xs. x_study_id x = sid"
    by blast
  have "1 \<le> n_series"
    unfolding n_series_def by (rule randint_lower) simp
  then have nonempty: "xs \<noteq> []"
    using len by auto
  show ?thesis
  proof (cases "report_status \<in> set [''Preliminary'', ''Final'']")
    case True
    with rep have "generate_report e (modality, body_part, description, priority)
                     is_critical report_status sid k3 db3 = Inr (k', db')"
      by simp
    from generate_report_effect [OF this] obtain r where
      r: "db' = db3\<lparr>reports := reports db3 @ [r]\<rparr>" "r_study_id r = Some sid"
        "critical_sentence (r_findings r) = is_critical"
      by blast
    from True r xs nonempty new show ?thesis
      by (intro exI [of _ s] exI [of _ xs] exI [of _ "[r]"])
         (simp add: db1 db2 db3 s_id s_st s_cr)
  next
    case False
    with rep have "db' = db3" by simp
    moreover from False have "\<not> (report_status = ''Preliminary'' \<or> report_status = ''Final'')"
      by simp
    ultimately show ?thesis
      using xs nonempty new
      by (intro exI [of _ s] exI [of _ xs] exI [of _ "[]"])
         (simp add: db1 db2 db3 s_id s_st s_cr)
  qed
qed

lemma generated_refl: "generated db db [] [] []"
  by (simp add: generated_def)

lemma generated_study:
  assumes g: "generated db db1 ss xs rs"
    and step: "generate_study e critical_pct pid k db1 = Inr (k', db2)"
  shows "\<exists>s xs' rs'. generated db db2 (ss @ [s]) (xs @ xs') (rs @ rs')"
proof -
  from generate_study_effect [OF step] obtain s xs' rs' where
    e: "studies db2 = studies db1 @ [s]" "series_rows db2 = series_rows db1 @ xs'"
      "reports db2 = reports db1 @ rs'"
    and new: "s_study_id s \<notin> set (map s_study_id (studies db1))"
    and xs': "xs' \<noteq> []" "\<forall>x \<in> set xs'. x_study_id x = s_study_id s"
    and rs': "rs' \<noteq> [] \<longleftrightarrow> s_report_status s = ''Preliminary'' \<or> s_report_status s = ''Final''"
      "\<forall>r \<in> set rs'. r_study_id r = Some (s_study_id s) \<and>
         critical_sentence (r_findings r) = s_critical_flag s"
    by blast
  from g have old: "studies db1 = studies db @ ss" "series_rows db1 = series_rows db @ xs"
      "reports db1 = reports db @ rs" "distinct (map s_study_id ss)"
      "set (map s_study_id ss) \<inter> set (map s_study_id (studies db)) = {}"
      "\<forall>r \<in> set rs. r_study_id r \<in> Some ` set (map s_study_id ss)"
      "\<forall>s \<in> set ss. study_complete s xs rs"
    by (simp_all add: generated_def)
  from new old(1) have fresh: "s_study_id s \<notin> set (map s_study_id ss)"
    "s_study_id s \<notin> set (map s_study_id (studies db))"
    by simp_all
  have none_old: "\<forall>r \<in> set rs. r_study_id r \<noteq> Some (s_study_id s)"
  proof (intro ballI notI)
    fix r
    assume r: "r \<in> set rs" and eq: "r_study_id r = Some (s_study_id s)"
    from old(6) r have "r_study_id r \<in> Some ` set (map s_study_id ss)"
      by (rule bspec)
    then have "s_study_id s \<in> set (map s_study_id ss)"
      unfolding eq by (simp only: inj_image_mem_iff [OF inj_Some])
    with fresh(1) show False by simp
  qed
  have s_ok: "study_complete s (xs @ xs') (rs @ rs')"
  proof -
    from xs' obtain x where "x \<in> set xs'" "x_study_id x = s_study_id s"
      by (cases xs') auto
    then have 1: "\<exists>x \<in> set (xs @ xs'). x_study_id x = s_study_id s"
      by auto
    have "(\<exists>r \<in> set (rs @ rs'). r_study_id r = Some (s_study_id s)) = (rs' \<noteq> [])"
      using none_old rs'(2) by (cases rs') auto
    with rs'(1) have 2: "(\<exists>r \<in> set (rs @ rs'). r_study_id r = Some (s_study_id s))
        = (s_report_status s = ''Preliminary'' \<or> s_report_status s = ''Final'')"
      by simp
    have 3: "\<forall>r \<in> set (rs @ rs'). r_study_id r = Some (s_study_id s) \<longrightarrow>
               critical_sentence (r_findings r) = s_critical_flag s"
      using none_old rs'(2) by auto
    from 1 2 3 show ?thesis
      unfolding study_complete_def by blast
  qed
  have old_ok: "study_complete t (xs @ xs') (rs @ rs')" if t: "t \<in> set ss" for t
  proof -
    from t old(7) have c: "study_complete t xs rs" by blast
    from t fresh(1) have ne: "s_study_id s \<noteq> s_study_id t" by auto
    from c have 1: "\<exists>x \<in> set (xs @ xs'). x_study_id x = s_study_id t"
      by (auto simp: study_complete_def)
    have "(\<exists>r \<in> set (rs @ rs'). r_study_id r = Some (s_study_id t))
            = (\<exists>r \<in> set rs. r_study_id r = Some (s_study_id t))"
      using rs'(2) ne by auto
    with c have 2: "(\<exists>r \<in> set (rs @ rs'). r_study_id r = Some (s_study_id t))
        = (s_report_status t = ''Preliminary'' \<or> s_report_status t = ''Final'')"
      by (simp add: study_complete_def)
    have 3: "\<forall>r \<in> set (rs @ rs'). r_study_id r = Some (s_study_id t) \<longrightarrow>
               critical_sentence (r_findings r) = s_critical_flag t"
      using c rs'(2) ne by (auto simp: study_complete_def)
    from 1 2 3 show ?thesis
      unfolding study_complete_def by blast
  qed
  have "generated db db2 (ss @ [s]) (xs @ xs') (rs @ rs')"
    unfolding generated_def
  proof (intro conjI)
    show "studies db2 = studies db @ ss @ [s]" by (simp add: e old)
    show "series_rows db2 = series_rows db @ xs @ xs'" by (simp add: e old)
    show "reports db2 = reports db @ rs @ rs'" by (simp add: e old)
    show "distinct (map s_study_id (ss @ [s]))" using old(4) fresh(1) by simp
    show "set (map s_study_id (ss @ [s])) \<inter> set (map s_study_id (studies db)) = {}"
      using old(5) fresh(2) by simp
    show "\<forall>r \<in> set (rs @ rs'). r_study_id r \<in> Some ` set (map s_study_id (ss @ [s]))"
      using old(6) rs'(2) by auto
    show "\<forall>s \<in> set (ss @ [s]). study_complete s (xs @ xs') (rs @ rs')"
      using s_ok old_ok by auto
  qed
  then show ?thesis by blast
qed

lemma generated_patient:
  "generated db db1 ss xs rs \<Longrightarrow> insert_patient db1 p = Inr db2 \<Longrightarrow> generated db db2 ss xs rs"
  by (auto simp: generated_def insert_patient_def split: if_splits)

lemma generated_studies_loop:
  "generated db db1 ss xs rs \<Longrightarrow>
   generate_studies e critical_pct pid n k db1 sc = Inr (k', db2, sc') \<Longrightarrow>
   \<exists>ss' xs' rs'. generated db db2 ss' xs' rs' \<and> length ss' + sc = length ss + sc'"
proof (induction n arbitrary: k db1 sc ss xs rs)
  case 0
  then show ?case by auto
next
  case (Suc n)
  from Suc.prems(2) obtain k1 db1' where
    step: "generate_study e critical_pct pid k db1 = Inr (k1, db1')"
    and rest: "generate_studies e critical_pct pid n k1 db1' (sc + 1) = Inr (k', db2, sc')"
    by (auto split: sum.splits)
  from generated_study [OF Suc.prems(1) step] obtain s xs1 rs1 where
    g: "generated db db1' (ss @ [s]) (xs @ xs1) (rs @ rs1)"
    by blast
  from Suc.IH [OF g rest] show ?case
    by auto
qed

lemma generated_patients_loop:
  "generated db db1 ss xs rs \<Longrightarrow>
   generate_patients e studies_per_patient critical_pct n k db1 pc sc = Inr (db2, pc', sc') \<Longrightarrow>
   \<exists>ss' xs' rs'. generated db db2 ss' xs' rs' \<and> length ss' + sc = length ss + sc'"
proof (induction n arbitrary: k db1 pc sc ss xs rs)
  case 0
  then show ?case by auto
next
  case (Suc n)
  obtain p k1 where gp: "generate_patient e k = (p, k1)"
    by (cases "generate_patient e k") auto
  show ?case
  proof (cases "insert_patient db1 p")
    case (Inl x)
    with Suc.prems(2) gp have
      "generate_patients e studies_per_patient critical_pct n k1 db1 pc sc = Inr (db2, pc', sc')"
      by simp
    from Suc.IH [OF Suc.prems(1) this] show ?thesis .
  next
    case (Inr db1')
    with Suc.prems(2) gp obtain k2 db1'' sc1 where
      inner: "generate_studies e critical_pct (p_patient_id p)
                (nat (randint 1 studies_per_patient (rand e k1))) (k1 + 1) db1' sc
              = Inr (k2, db1'', sc1)"
      and rest: "generate_patients e studies_per_patient critical_pct n k2 db1'' (pc + 1) sc1
              = Inr (db2, pc', sc')"
      by (auto simp: Let_def split: if_splits sum.splits)
    from generated_patient [OF Suc.prems(1) Inr] have "generated db db1' ss xs rs" .
    from generated_studies_loop [OF this inner] obtain ss1 xs1 rs1 where
      g: "generated db db1'' ss1 xs1 rs1" and n1: "length ss1 + sc = length ss + sc1"
      by blast
    from Suc.IH [OF g rest] obtain ss' xs' rs' where
      "generated db db2 ss' xs' rs'" "length ss' + sc1 = length ss1 + sc'"
      by blast
    with n1 show ?thesis
      by (intro exI [of _ ss'] exI [of _ xs'] exI [of _ rs']) simp
  qed
qed

lemma generate_patients_and_studies_generated:
  assumes "generate_patients_and_studies e n_patients studies_per_patient critical_pct db
             = Inr (result, db')"
  shows "\<exists>ss xs rs. generated db db' ss xs rs \<and> length ss = studies_created result"
proof -
  from assms obtain pc sc where
    run: "generate_patients e studies_per_patient critical_pct (nat n_patients) 0 db 0 0
            = Inr (db', pc, sc)"
    and res: "result = \<lparr>patients_created = pc, studies_created = sc\<rparr>"
    by (auto simp: generate_patients_and_studies_def split: sum.splits)
  from generated_patients_loop [OF generated_refl run] res show ?thesis
    by auto
qed

text \<open>
  C8. A run of the generator that returns has appended studies, series and reports to
  the tables, as many studies as it reports; each of these studies has a series among
  the appended ones; it has a report among the appended ones exactly when its
  report_status is Preliminary or Final; and the findings of such a report end with the
  critical-finding sentence exactly when the study's critical flag is set. (A run that
  raises commits nothing.)
\<close>

theorem generator_structure:
  assumes "generate_patients_and_studies e n_patients studies_per_patient critical_pct db
             = Inr (result, db')"
  shows "\<exists>ss xs rs.
           studies db' = studies db @ ss \<and> series_rows db' = series_rows db @ xs \<and>
           reports db' = reports db @ rs \<and> length ss = studies_created result \<and>
           (\<forall>s \<in> set ss. study_complete s xs rs)"
proof -
  from generate_patients_and_studies_generated [OF assms] obtain ss xs rs where
    "generated db db' ss xs rs" "length ss = studies_created result"
    by blast
  then show ?thesis
    by (intro exI [of _ ss] exI [of _ xs] exI [of _ rs]) (simp add: generated_def)
qed

subsection \<open>A run of the generator\<close>

lemma sample_numeral:
  "sample e k population (numeral n) =
     (let i = rand e k mod length population
      in population ! i
         # sample e (Suc k) (take i population @ drop (Suc i) population) (pred_numeral n))"
  by (simp add: numeral_eq_Suc)

lemma generate_one_patient:
  assumes "generate_patient e 0 = (p, k1)"
    and "insert_patient db p = Inr db1"
    and "1 \<le> studies_per_patient"
    and "generate_studies e critical_pct (p_patient_id p)
           (nat (randint 1 studies_per_patient (rand e k1))) (k1 + 1) db1 0 = Inr (k2, db2, sc)"
  shows "generate_patients_and_studies e 1 studies_per_patient critical_pct db
           = Inr (\<lparr>patients_created = 1, studies_created = sc\<rparr>, db2)"
  using assms by (simp add: generate_patients_and_studies_def Let_def)

lemma gen_env_sel:
  "rand gen_env k = 7 * k + 5"
  "uuid4 gen_env k = ''uuid-'' @ str_int (int k)"
  by (simp_all add: gen_env_def demo_env_def)

lemma report_findings_xr: "\<exists>xr. map_of REPORT_FINDINGS ''XR'' = Some xr"
  by (simp add: REPORT_FINDINGS_def)

lemma gen_patient: "snd (generate_patient gen_env 0) = 14"
  by (simp add: generate_patient_def choice_def randint_def str_int_def digits.simps Let_def
      gen_env_sel sample_numeral)

text \<open>
  One round of the inner loop in that world, from call 15 on. Only the draws that steer
  the run are evaluated (ids, status, flag, series count); the texts drawn from the pools
  stay as they are written.
\<close>

lemma gen_study:
  assumes "map_of REPORT_FINDINGS ''XR'' = Some xr"
  shows "\<exists>db2. generate_study gen_env 15 pid 15
           \<lparr>patients = ps, orders = [], studies = [], series_rows = [], reports = []\<rparr>
           = Inr (39, db2) \<and>
         map s_study_id (studies db2) = [''uuid-19''] \<and>
         map s_report_status (studies db2) = [''Final''] \<and>
         map s_critical_flag (studies db2) = [True] \<and>
         map x_study_id (series_rows db2) = [''uuid-19''] \<and>
         map r_study_id (reports db2) = [Some ''uuid-19'']"
  by (simp add: generate_study_def generate_report_def assms
      case_prod_beta Let_def insert_order_def insert_study_def insert_series_def
      insert_report_def gen_env_sel randint_def random_unit_def upto.simps str_int_def
      digits.simps choice_def)

theorem generator_structure_witness:
  "\<exists>db'. generate_patients_and_studies gen_env 1 1 15 (DB empty_state)
            = Inr (\<lparr>patients_created = 1, studies_created = 1\<rparr>, db') \<and>
         map s_study_id (studies db') = [''uuid-19''] \<and>
         map s_report_status (studies db') = [''Final''] \<and>
         map s_critical_flag (studies db') = [True] \<and>
         map x_study_id (series_rows db') = [''uuid-19''] \<and>
         map r_study_id (reports db') = [Some ''uuid-19''] \<and>
         list_all (\<lambda>r. critical_sentence (r_findings r)) (reports db')"
proof -
  from report_findings_xr obtain xr where xr: "map_of REPORT_FINDINGS ''XR'' = Some xr"
    by (elim exE)
  obtain p where gp: "generate_patient gen_env 0 = (p, 14)"
    using gen_patient by (cases "generate_patient gen_env 0") simp
  let ?db1 = "\<lparr>patients = [p], orders = [], studies = [], series_rows = [], reports = []\<rparr>"
  have ins: "insert_patient (DB empty_state) p = Inr ?db1"
    by (simp add: insert_patient_def empty_state_def)
  from gen_study [OF xr, of "p_patient_id p" "[p]"] obtain db2 where
    step: "generate_study gen_env 15 (p_patient_id p) 15 ?db1 = Inr (39, db2)"
    and ids: "map s_study_id (studies db2) = [''uuid-19'']"
    and sts: "map s_report_status (studies db2) = [''Final'']"
    and crs: "map s_critical_flag (studies db2) = [True]"
    and xss: "map x_study_id (series_rows db2) = [''uuid-19'']"
    and rss: "map r_study_id (reports db2) = [Some ''uuid-19'']"
    by (elim exE conjE)
  have n: "nat (randint 1 1 (rand gen_env 14)) = Suc 0"
    by (simp add: randint_def)
  have loop: "generate_studies gen_env 15 (p_patient_id p)
                (nat (randint 1 1 (rand gen_env 14))) (14 + 1) ?db1 0 = Inr (39, db2, 1)"
    unfolding n by (simp add: step)
  have run: "generate_patients_and_studies gen_env 1 1 15 (DB empty_state)
               = Inr (\<lparr>patients_created = 1, studies_created = 1\<rparr>, db2)"
    using gp ins _ loop by (rule generate_one_patient) simp
  from generator_structure [OF run] obtain ss xs rs where
    ss: "studies db2 = studies (DB empty_state) @ ss"
    and rs: "reports db2 = reports (DB empty_state) @ rs"
    and complete: "\<forall>s \<in> set ss. study_complete s xs rs"
    by (elim exE conjE)
  from ss have ss': "ss = studies db2" by (simp add: empty_state_def)
  from rs have rs': "rs = reports db2" by (simp add: empty_state_def)
  from ids sts crs obtain s where s: "studies db2 = [s]" "s_study_id s = ''uuid-19''"
    "s_critical_flag s"
    by (cases "studies db2") auto
  from complete have "study_complete s xs (reports db2)"
    by (simp add: ss' rs' s(1))
  then have "\<forall>r \<in> set (reports db2). r_study_id r = Some ''uuid-19'' \<longrightarrow>
               critical_sentence (r_findings r)"
    by (simp add: study_complete_def s)
  moreover from rss have "\<forall>r \<in> set (reports db2). r_study_id r = Some ''uuid-19''"
    by (cases "reports db2") auto
  ultimately have "list_all (\<lambda>r. critical_sentence (r_findings r)) (reports db2)"
    by (simp add: list_all_iff)
  with run ids sts crs xss rss show ?thesis
    by (intro exI [of _ db2]) simp
qed

subsection \<open>Reports and their studies\<close>

lemma generated_references:
  assumes "generated db db' ss xs rs" and "reports_reference_studies db"
  shows "reports_reference_studies db'"
proof -
  from assms(1) have st: "studies db' = studies db @ ss" and rp: "reports db' = reports db @ rs"
    and new: "\<forall>r \<in> set rs. r_study_id r \<in> Some ` set (map s_study_id ss)"
    by (simp_all add: generated_def)
  have "r_study_id r \<in> Some ` set (map s_study_id (studies db'))" if "r \<in> set (reports db')" for r
  proof (cases "r \<in> set rs")
    case True
    with new have "r_study_id r \<in> Some ` set (map s_study_id ss)" by (rule bspec)
    then show ?thesis by (auto simp: st)
  next
    case False
    with that have "r \<in> set (reports db)" by (simp add: rp)
    with assms(2) have "r_study_id r \<in> Some ` set (map s_study_id (studies db))"
      by (simp add: reports_reference_studies_def)
    then show ?thesis by (auto simp: st)
  qed
  then show ?thesis by (simp add: reports_reference_studies_def)
qed

text \<open>
  C4, as the code has it. Create report needs the key \<open>study_id\<close> in the body (without
  it the call raises KeyError and stores nothing) but never looks the study up. For a
  caller holding a session, a body whose narrative values can be bound and a report id
  that is new, the call succeeds whenever the study id can be bound, and the row it
  appends carries that study id, whether or not a study has it. So a store in which every
  report references an existing study stays such a store under create report exactly when
  the given study id is the id of a study of the store. It stays one under every run of
  the generator that returns.
\<close>

theorem create_report_study_reference:
  assumes "reports_reference_studies (DB st)"
  shows "(SESSIONS st token = Some username \<and> data ''study_id'' = None \<longrightarrow>
            create_report e data token st = (Inl (Unhandled KeyError), st)) \<and>
         (SESSIONS st token = Some username \<and> data ''study_id'' = Some v \<and>
          bind_text e v = Inr t \<and> bindable_report_body data \<and>
          uuid4 e 0 \<notin> set (map r_report_id (reports (DB st))) \<longrightarrow>
            (\<exists>r. create_report e data token st =
                    (Inr (Report_saved (uuid4 e 0)),
                     st\<lparr>DB := (DB st)\<lparr>reports := reports (DB st) @ [r]\<rparr>\<rparr>) \<and>
                  r_report_id r = uuid4 e 0 \<and> r_study_id r = t \<and>
                  reports_reference_studies ((DB st)\<lparr>reports := reports (DB st) @ [r]\<rparr>)
                    = (t \<in> Some ` set (map s_study_id (studies (DB st)))))) \<and>
         (generate_patients_and_studies e n_patients studies_per_patient critical_pct (DB st)
            = Inr (result, db') \<longrightarrow> reports_reference_studies db')"
proof (intro conjI impI)
  assume "SESSIONS st token = Some username \<and> data ''study_id'' = None"
  then show "create_report e data token st = (Inl (Unhandled KeyError), st)"
    by (simp add: create_report_def verify_token_def)
next
  assume a: "SESSIONS st token = Some username \<and> data ''study_id'' = Some v \<and>
     bind_text e v = Inr t \<and> bindable_report_body data \<and>
     uuid4 e 0 \<notin> set (map r_report_id (reports (DB st)))"
  then have body: "bindable_report_body data" by simp
  from bind_report_fields_bindable [OF body, of e] obtain fs where
    fs: "bind_report_fields e data = Inr fs"
    by (elim exE conjE)
  define r where "r =
     \<lparr>r_report_id = uuid4 e 0, r_study_id = t, r_author = username,
      r_created_at = strftime e (clock e), r_updated_at = strftime e (clock e),
      r_indication = f_indication fs, r_technique = f_technique fs,
      r_findings = f_findings fs, r_impression = f_impression fs,
      r_sign_status = f_sign_status fs, r_addenda = json_dumps e []\<rparr>"
  have ins: "insert_report (DB st) r = Inr ((DB st)\<lparr>reports := reports (DB st) @ [r]\<rparr>)"
    using a by (simp add: insert_report_def r_def)
  have run: "create_report e data token st =
      (Inr (Report_saved (uuid4 e 0)), st\<lparr>DB := (DB st)\<lparr>reports := reports (DB st) @ [r]\<rparr>\<rparr>)"
    using a fs ins
    by (simp add: create_report_def verify_token_def on_success_def Let_def r_def)
  have refs: "reports_reference_studies ((DB st)\<lparr>reports := reports (DB st) @ [r]\<rparr>)
                = (t \<in> Some ` set (map s_study_id (studies (DB st))))"
    using assms by (auto simp: reports_reference_studies_def r_def)
  from run refs
  show "\<exists>r. create_report e data token st =
              (Inr (Report_saved (uuid4 e 0)),
               st\<lparr>DB := (DB st)\<lparr>reports := reports (DB st) @ [r]\<rparr>\<rparr>) \<and>
            r_report_id r = uuid4 e 0 \<and> r_study_id r = t \<and>
            reports_reference_studies ((DB st)\<lparr>reports := reports (DB st) @ [r]\<rparr>)
              = (t \<in> Some ` set (map s_study_id (studies (DB st))))"
    by (intro exI [of _ r]) (simp add: r_def)
next
  assume "generate_patients_and_studies e n_patients studies_per_patient critical_pct (DB st)
            = Inr (result, db')"
  from generate_patients_and_studies_generated [OF this] obtain ss xs rs where
    "generated (DB st) db' ss xs rs"
    by (elim exE conjE)
  then show "reports_reference_studies db'"
    using assms by (rule generated_references)
qed

theorem create_report_study_reference_witness:
  "reports_reference_studies (DB demo_state) \<and>
   map s_study_id (studies (DB demo_state)) = [''s1'', ''s2'', ''s3'', ''s4''] \<and>
   fst (create_report demo_env [''study_id'' \<mapsto> JStr ''s1''] ''tok'' demo_state)
     = Inr (Report_saved ''uuid-0'') \<and>
   map r_study_id
     (reports (DB (snd (create_report demo_env [''study_id'' \<mapsto> JStr ''s1''] ''tok''
        demo_state)))) = [Some ''s2'', Some ''s1''] \<and>
   reports_reference_studies
     (DB (snd (create_report demo_env [''study_id'' \<mapsto> JStr ''s1''] ''tok'' demo_state)))"
proof -
  have refs: "reports_reference_studies (DB demo_state)"
    by (simp add: reports_reference_studies_def demo_defs)
  have tok: "SESSIONS demo_state ''tok'' = Some ''david''"
    by (simp add: demo_state_def)
  have ids: "map s_study_id (studies (DB demo_state)) = [''s1'', ''s2'', ''s3'', ''s4'']"
    by (simp add: demo_defs)
  have old: "map r_study_id (reports (DB demo_state)) = [Some ''s2'']"
    by (simp add: demo_defs)
  have sid: "bind_text demo_env (JStr ''s1'') = Inr (Some ''s1'')"
    by (simp add: bind_text_def)
  have body: "bindable_report_body [''study_id'' \<mapsto> JStr ''s1'']"
    by (simp add: bindable_report_body_def supplied_bindable_def)
  have uuid: "uuid4 demo_env 0 = ''uuid-0''"
    by (simp add: demo_env_def str_int_def digits.simps)
  have fresh: "uuid4 demo_env 0 \<notin> set (map r_report_id (reports (DB demo_state)))"
    by (simp add: uuid) (simp add: demo_defs)
  have given: "SESSIONS demo_state ''tok'' = Some ''david'' \<and>
      [''study_id'' \<mapsto> JStr ''s1''] ''study_id'' = Some (JStr ''s1'') \<and>
      bind_text demo_env (JStr ''s1'') = Inr (Some ''s1'') \<and>
      bindable_report_body [''study_id'' \<mapsto> JStr ''s1''] \<and>
      uuid4 demo_env 0 \<notin> set (map r_report_id (reports (DB demo_state)))"
    using tok sid body fresh by simp
  note created = create_report_study_reference [OF refs, THEN conjunct2, THEN conjunct1]
  from created [THEN mp, OF given] obtain r where
    run: "create_report demo_env [''study_id'' \<mapsto> JStr ''s1''] ''tok'' demo_state =
            (Inr (Report_saved (uuid4 demo_env 0)),
             demo_state\<lparr>DB := (DB demo_state)\<lparr>reports := reports (DB demo_state) @ [r]\<rparr>\<rparr>)"
    and r: "r_study_id r = Some ''s1''"
    and after: "reports_reference_studies
                  ((DB demo_state)\<lparr>reports := reports (DB demo_state) @ [r]\<rparr>)
                = (Some ''s1'' \<in> Some ` set (map s_study_id (studies (DB demo_state))))"
    by (elim exE conjE)
  have "reports_reference_studies ((DB demo_state)\<lparr>reports := reports (DB demo_state) @ [r]\<rparr>)"
    unfolding after ids by simp
  with refs ids run r old uuid show ?thesis by simp
qed

theorem create_report_counterexample:
  "SESSIONS demo_state ''tok'' = Some ''david'' \<and>
   map s_study_id (studies (DB demo_state)) = [''s1'', ''s2'', ''s3'', ''s4''] \<and>
   reports_reference_studies (DB demo_state) \<and>
   fst (create_report demo_env [''study_id'' \<mapsto> JStr ''s9''] ''tok'' demo_state)
     = Inr (Report_saved ''uuid-0'') \<and>
   map r_study_id
     (reports (DB (snd (create_report demo_env [''study_id'' \<mapsto> JStr ''s9''] ''tok''
        demo_state)))) = [Some ''s2'', Some ''s9''] \<and>
   \<not> reports_reference_studies
       (DB (snd (create_report demo_env [''study_id'' \<mapsto> JStr ''s9''] ''tok'' demo_state)))"
  by (simp add: reports_reference_studies_def demo_defs create_report_def verify_token_def
      bind_report_fields_def on_success_def bind_text_def dict_get_def insert_report_def
      demo_env_def str_int_def digits.simps Let_def)

end
